theory Spec2Isabelle
  imports Main "HOL-Library.Sublist"
begin

section \<open>JavaScript strings\<close>

text \<open>
  A JavaScript string is a sequence of UTF-16 code units; a code unit is a natural number
  below 65536. ASCII literals of the source are written \<open>str ''...''\<close>; other characters
  are given by their code units.
\<close>

type_synonym jsstring = "nat list"

definition str :: "string \<Rightarrow> jsstring" where
  "str s = map of_char s"

text \<open>\<^verbatim>\<open>s.includes(p)\<close>: \<open>p\<close> occurs in \<open>s\<close> as a contiguous block.\<close>

fun includes_js :: "jsstring \<Rightarrow> jsstring \<Rightarrow> bool" where
  "includes_js [] p = (p = [])"
| "includes_js (c # cs) p = (prefix p (c # cs) \<or> includes_js cs p)"

definition startsWith :: "jsstring \<Rightarrow> jsstring \<Rightarrow> bool" where
  "startsWith s p = prefix p s"

text \<open>\<^verbatim>\<open>xs.some(f)\<close> on an array.\<close>

definition some :: "'a list \<Rightarrow> ('a \<Rightarrow> bool) \<Rightarrow> bool" where
  "some xs f = list_ex f xs"

text \<open>
  The characters removed by \<^verbatim>\<open>trim()\<close> and matched by \<^verbatim>\<open>\s\<close>: ECMAScript WhiteSpace
  and LineTerminator.
\<close>

definition isWhiteSpace :: "nat \<Rightarrow> bool" where
  "isWhiteSpace c =
     (c \<in> set [0x9, 0xA, 0xB, 0xC, 0xD, 0x20, 0xA0, 0x1680, 0x2028, 0x2029, 0x202F, 0x205F,
                0x3000, 0xFEFF]
      \<or> (0x2000 \<le> c \<and> c \<le> 0x200A))"

definition trimStart :: "jsstring \<Rightarrow> jsstring" where
  "trimStart s = dropWhile isWhiteSpace s"

definition trim :: "jsstring \<Rightarrow> jsstring" where
  "trim s = rev (dropWhile isWhiteSpace (rev (dropWhile isWhiteSpace s)))"

text \<open>The line terminators, which \<^verbatim>\<open>.\<close> in a regular expression does not match.\<close>

definition isLineTerminator :: "nat \<Rightarrow> bool" where
  "isLineTerminator c = (c \<in> set [0xA, 0xD, 0x2028, 0x2029])"

subsection \<open>Lower case\<close>

text \<open>
  \<^verbatim>\<open>toLowerCase()\<close> works on code points, by the Unicode default case conversion: the
  string is read as code points (a high surrogate followed by a low one is one code point, a
  surrogate on its own stays as it is), each code point is replaced by its lower case, and
  the result is written back as code units. The tables are those of Unicode 14.0.
\<close>

fun decode :: "jsstring \<Rightarrow> nat list" where
  "decode [] = []"
| "decode [c] = [c]"
| "decode (h # l # cs) =
     (if 0xD800 \<le> h \<and> h \<le> 0xDBFF \<and> 0xDC00 \<le> l \<and> l \<le> 0xDFFF
      then (0x10000 + (h - 0xD800) * 0x400 + (l - 0xDC00)) # decode cs
      else h # decode (l # cs))"

definition encodePoint :: "nat \<Rightarrow> jsstring" where
  "encodePoint p =
     (if p < 0x10000 then [p]
      else [0xD800 + (p - 0x10000) div 0x400, 0xDC00 + (p - 0x10000) mod 0x400])"

definition encode :: "nat list \<Rightarrow> jsstring" where
  "encode ps = concat (map encodePoint ps)"

text \<open>
  The lower-case mappings of the code points beyond ASCII, as runs \<open>(first, last, step,
  image of first)\<close>: the code points \<open>first\<close>, \<open>first + step\<close>, ... up to \<open>last\<close> map to the
  image of the first plus their distance from it.
\<close>

definition lowerRanges :: "(nat \<times> nat \<times> nat \<times> nat) list" where
  "lowerRanges =
    [
     (0xC0, 0xD6, 1, 0xE0), (0xD8, 0xDE, 1, 0xF8), (0x100, 0x12E, 2, 0x101),
     (0x132, 0x136, 2, 0x133), (0x139, 0x147, 2, 0x13A), (0x14A, 0x176, 2, 0x14B),
     (0x178, 0x178, 1, 0xFF), (0x179, 0x17D, 2, 0x17A), (0x181, 0x181, 1, 0x253),
     (0x182, 0x184, 2, 0x183), (0x186, 0x186, 1, 0x254), (0x187, 0x187, 1, 0x188),
     (0x189, 0x18A, 1, 0x256), (0x18B, 0x18B, 1, 0x18C), (0x18E, 0x18E, 1, 0x1DD),
     (0x18F, 0x18F, 1, 0x259), (0x190, 0x190, 1, 0x25B), (0x191, 0x191, 1, 0x192),
     (0x193, 0x193, 1, 0x260), (0x194, 0x194, 1, 0x263), (0x196, 0x196, 1, 0x269),
     (0x197, 0x197, 1, 0x268), (0x198, 0x198, 1, 0x199), (0x19C, 0x19C, 1, 0x26F),
     (0x19D, 0x19D, 1, 0x272), (0x19F, 0x19F, 1, 0x275), (0x1A0, 0x1A4, 2, 0x1A1),
     (0x1A6, 0x1A6, 1, 0x280), (0x1A7, 0x1A7, 1, 0x1A8), (0x1A9, 0x1A9, 1, 0x283),
     (0x1AC, 0x1AC, 1, 0x1AD), (0x1AE, 0x1AE, 1, 0x288), (0x1AF, 0x1AF, 1, 0x1B0),
     (0x1B1, 0x1B2, 1, 0x28A), (0x1B3, 0x1B5, 2, 0x1B4), (0x1B7, 0x1B7, 1, 0x292),
     (0x1B8, 0x1B8, 1, 0x1B9), (0x1BC, 0x1BC, 1, 0x1BD), (0x1C4, 0x1C4, 1, 0x1C6),
     (0x1C5, 0x1C5, 1, 0x1C6), (0x1C7, 0x1C7, 1, 0x1C9), (0x1C8, 0x1C8, 1, 0x1C9),
     (0x1CA, 0x1CA, 1, 0x1CC), (0x1CB, 0x1DB, 2, 0x1CC), (0x1DE, 0x1EE, 2, 0x1DF),
     (0x1F1, 0x1F1, 1, 0x1F3), (0x1F2, 0x1F4, 2, 0x1F3), (0x1F6, 0x1F6, 1, 0x195),
     (0x1F7, 0x1F7, 1, 0x1BF), (0x1F8, 0x21E, 2, 0x1F9), (0x220, 0x220, 1, 0x19E),
     (0x222, 0x232, 2, 0x223), (0x23A, 0x23A, 1, 0x2C65), (0x23B, 0x23B, 1, 0x23C),
     (0x23D, 0x23D, 1, 0x19A), (0x23E, 0x23E, 1, 0x2C66), (0x241, 0x241, 1, 0x242),
     (0x243, 0x243, 1, 0x180), (0x244, 0x244, 1, 0x289), (0x245, 0x245, 1, 0x28C),
     (0x246, 0x24E, 2, 0x247), (0x370, 0x372, 2, 0x371), (0x376, 0x376, 1, 0x377),
     (0x37F, 0x37F, 1, 0x3F3), (0x386, 0x386, 1, 0x3AC), (0x388, 0x38A, 1, 0x3AD),
     (0x38C, 0x38C, 1, 0x3CC), (0x38E, 0x38F, 1, 0x3CD), (0x391, 0x3A1, 1, 0x3B1),
     (0x3A3, 0x3AB, 1, 0x3C3), (0x3CF, 0x3CF, 1, 0x3D7), (0x3D8, 0x3EE, 2, 0x3D9),
     (0x3F4, 0x3F4, 1, 0x3B8), (0x3F7, 0x3F7, 1, 0x3F8), (0x3F9, 0x3F9, 1, 0x3F2),
     (0x3FA, 0x3FA, 1, 0x3FB), (0x3FD, 0x3FF, 1, 0x37B), (0x400, 0x40F, 1, 0x450),
     (0x410, 0x42F, 1, 0x430), (0x460, 0x480, 2, 0x461), (0x48A, 0x4BE, 2, 0x48B),
     (0x4C0, 0x4C0, 1, 0x4CF), (0x4C1, 0x4CD, 2, 0x4C2), (0x4D0, 0x52E, 2, 0x4D1),
     (0x531, 0x556, 1, 0x561), (0x10A0, 0x10C5, 1, 0x2D00), (0x10C7, 0x10C7, 1, 0x2D27),
     (0x10CD, 0x10CD, 1, 0x2D2D), (0x13A0, 0x13EF, 1, 0xAB70), (0x13F0, 0x13F5, 1, 0x13F8),
     (0x1C90, 0x1CBA, 1, 0x10D0), (0x1CBD, 0x1CBF, 1, 0x10FD), (0x1E00, 0x1E94, 2, 0x1E01),
     (0x1E9E, 0x1E9E, 1, 0xDF), (0x1EA0, 0x1EFE, 2, 0x1EA1), (0x1F08, 0x1F0F, 1, 0x1F00),
     (0x1F18, 0x1F1D, 1, 0x1F10), (0x1F28, 0x1F2F, 1, 0x1F20), (0x1F38, 0x1F3F, 1, 0x1F30),
     (0x1F48, 0x1F4D, 1, 0x1F40), (0x1F59, 0x1F5F, 2, 0x1F51), (0x1F68, 0x1F6F, 1, 0x1F60),
     (0x1F88, 0x1F8F, 1, 0x1F80), (0x1F98, 0x1F9F, 1, 0x1F90), (0x1FA8, 0x1FAF, 1, 0x1FA0),
     (0x1FB8, 0x1FB9, 1, 0x1FB0), (0x1FBA, 0x1FBB, 1, 0x1F70), (0x1FBC, 0x1FBC, 1, 0x1FB3),
     (0x1FC8, 0x1FCB, 1, 0x1F72), (0x1FCC, 0x1FCC, 1, 0x1FC3), (0x1FD8, 0x1FD9, 1, 0x1FD0),
     (0x1FDA, 0x1FDB, 1, 0x1F76), (0x1FE8, 0x1FE9, 1, 0x1FE0), (0x1FEA, 0x1FEB, 1, 0x1F7A),
     (0x1FEC, 0x1FEC, 1, 0x1FE5), (0x1FF8, 0x1FF9, 1, 0x1F78), (0x1FFA, 0x1FFB, 1, 0x1F7C),
     (0x1FFC, 0x1FFC, 1, 0x1FF3), (0x2126, 0x2126, 1, 0x3C9), (0x212A, 0x212A, 1, 0x6B),
     (0x212B, 0x212B, 1, 0xE5), (0x2132, 0x2132, 1, 0x214E), (0x2160, 0x216F, 1, 0x2170),
     (0x2183, 0x2183, 1, 0x2184), (0x24B6, 0x24CF, 1, 0x24D0), (0x2C00, 0x2C2F, 1, 0x2C30),
     (0x2C60, 0x2C60, 1, 0x2C61), (0x2C62, 0x2C62, 1, 0x26B), (0x2C63, 0x2C63, 1, 0x1D7D),
     (0x2C64, 0x2C64, 1, 0x27D), (0x2C67, 0x2C6B, 2, 0x2C68), (0x2C6D, 0x2C6D, 1, 0x251),
     (0x2C6E, 0x2C6E, 1, 0x271), (0x2C6F, 0x2C6F, 1, 0x250), (0x2C70, 0x2C70, 1, 0x252),
     (0x2C72, 0x2C72, 1, 0x2C73), (0x2C75, 0x2C75, 1, 0x2C76), (0x2C7E, 0x2C7F, 1, 0x23F),
     (0x2C80, 0x2CE2, 2, 0x2C81), (0x2CEB, 0x2CED, 2, 0x2CEC), (0x2CF2, 0x2CF2, 1, 0x2CF3),
     (0xA640, 0xA66C, 2, 0xA641), (0xA680, 0xA69A, 2, 0xA681), (0xA722, 0xA72E, 2, 0xA723),
     (0xA732, 0xA76E, 2, 0xA733), (0xA779, 0xA77B, 2, 0xA77A), (0xA77D, 0xA77D, 1, 0x1D79),
     (0xA77E, 0xA786, 2, 0xA77F), (0xA78B, 0xA78B, 1, 0xA78C), (0xA78D, 0xA78D, 1, 0x265),
     (0xA790, 0xA792, 2, 0xA791), (0xA796, 0xA7A8, 2, 0xA797), (0xA7AA, 0xA7AA, 1, 0x266),
     (0xA7AB, 0xA7AB, 1, 0x25C), (0xA7AC, 0xA7AC, 1, 0x261), (0xA7AD, 0xA7AD, 1, 0x26C),
     (0xA7AE, 0xA7AE, 1, 0x26A), (0xA7B0, 0xA7B0, 1, 0x29E), (0xA7B1, 0xA7B1, 1, 0x287),
     (0xA7B2, 0xA7B2, 1, 0x29D), (0xA7B3, 0xA7B3, 1, 0xAB53), (0xA7B4, 0xA7C2, 2, 0xA7B5),
     (0xA7C4, 0xA7C4, 1, 0xA794), (0xA7C5, 0xA7C5, 1, 0x282), (0xA7C6, 0xA7C6, 1, 0x1D8E),
     (0xA7C7, 0xA7C9, 2, 0xA7C8), (0xA7D0, 0xA7D0, 1, 0xA7D1), (0xA7D6, 0xA7D8, 2, 0xA7D7),
     (0xA7F5, 0xA7F5, 1, 0xA7F6), (0xFF21, 0xFF3A, 1, 0xFF41), (0x10400, 0x10427, 1, 0x10428),
     (0x104B0, 0x104D3, 1, 0x104D8), (0x10570, 0x1057A, 1, 0x10597),
     (0x1057C, 0x1058A, 1, 0x105A3), (0x1058C, 0x10592, 1, 0x105B3),
     (0x10594, 0x10595, 1, 0x105BB), (0x10C80, 0x10CB2, 1, 0x10CC0),
     (0x118A0, 0x118BF, 1, 0x118C0), (0x16E40, 0x16E5F, 1, 0x16E60),
     (0x1E900, 0x1E921, 1, 0x1E922)
    ]"

fun lookupLower :: "(nat \<times> nat \<times> nat \<times> nat) list \<Rightarrow> nat \<Rightarrow> nat option" where
  "lookupLower [] p = None"
| "lookupLower ((lo, hi, st, t) # rs) p =
     (if lo \<le> p \<and> p \<le> hi \<and> (p - lo) mod st = 0 then Some (t + (p - lo))
      else lookupLower rs p)"

definition lowerPoint :: "nat \<Rightarrow> nat" where
  "lowerPoint p =
     (if p < 0x80 then (if 0x41 \<le> p \<and> p \<le> 0x5A then p + 0x20 else p)
      else case lookupLower lowerRanges p of None \<Rightarrow> p | Some q \<Rightarrow> q)"

text \<open>
  The capital sigma is lowered to the final sigma when a cased letter comes before it and
  none comes after it, code points that case conversion ignores being skipped on both sides.
  \<open>caseIgnorableRanges\<close> are the code points that are skipped, \<open>casedRanges\<close> the cased
  letters among the others.
\<close>

definition caseIgnorableRanges :: "(nat \<times> nat) list" where
  "caseIgnorableRanges =
    [
     (0x27, 0x27), (0x2E, 0x2E), (0x3A, 0x3A), (0x5E, 0x5E), (0x60, 0x60), (0xA8, 0xA8),
     (0xAD, 0xAD), (0xAF, 0xAF), (0xB4, 0xB4), (0xB7, 0xB8), (0x2B0, 0x36F), (0x374, 0x375),
     (0x37A, 0x37A), (0x384, 0x385), (0x387, 0x387), (0x483, 0x489), (0x559, 0x559),
     (0x55F, 0x55F), (0x591, 0x5BD), (0x5BF, 0x5BF), (0x5C1, 0x5C2), (0x5C4, 0x5C5),
     (0x5C7, 0x5C7), (0x5F4, 0x5F4), (0x600, 0x605), (0x610, 0x61A), (0x61C, 0x61C),
     (0x640, 0x640), (0x64B, 0x65F), (0x670, 0x670), (0x6D6, 0x6DD), (0x6DF, 0x6E8),
     (0x6EA, 0x6ED), (0x70F, 0x70F), (0x711, 0x711), (0x730, 0x74A), (0x7A6, 0x7B0),
     (0x7EB, 0x7F5), (0x7FA, 0x7FA), (0x7FD, 0x7FD), (0x816, 0x82D), (0x859, 0x85B),
     (0x888, 0x888), (0x890, 0x891), (0x898, 0x89F), (0x8C9, 0x902), (0x93A, 0x93A),
     (0x93C, 0x93C), (0x941, 0x948), (0x94D, 0x94D), (0x951, 0x957), (0x962, 0x963),
     (0x971, 0x971), (0x981, 0x981), (0x9BC, 0x9BC), (0x9C1, 0x9C4), (0x9CD, 0x9CD),
     (0x9E2, 0x9E3), (0x9FE, 0x9FE), (0xA01, 0xA02), (0xA3C, 0xA3C), (0xA41, 0xA42),
     (0xA47, 0xA48), (0xA4B, 0xA4D), (0xA51, 0xA51), (0xA70, 0xA71), (0xA75, 0xA75),
     (0xA81, 0xA82), (0xABC, 0xABC), (0xAC1, 0xAC5), (0xAC7, 0xAC8), (0xACD, 0xACD),
     (0xAE2, 0xAE3), (0xAFA, 0xAFF), (0xB01, 0xB01), (0xB3C, 0xB3C), (0xB3F, 0xB3F),
     (0xB41, 0xB44), (0xB4D, 0xB4D), (0xB55, 0xB56), (0xB62, 0xB63), (0xB82, 0xB82),
     (0xBC0, 0xBC0), (0xBCD, 0xBCD), (0xC00, 0xC00), (0xC04, 0xC04), (0xC3C, 0xC3C),
     (0xC3E, 0xC40), (0xC46, 0xC48), (0xC4A, 0xC4D), (0xC55, 0xC56), (0xC62, 0xC63),
     (0xC81, 0xC81), (0xCBC, 0xCBC), (0xCBF, 0xCBF), (0xCC6, 0xCC6), (0xCCC, 0xCCD),
     (0xCE2, 0xCE3), (0xD00, 0xD01), (0xD3B, 0xD3C), (0xD41, 0xD44), (0xD4D, 0xD4D),
     (0xD62, 0xD63), (0xD81, 0xD81), (0xDCA, 0xDCA), (0xDD2, 0xDD4), (0xDD6, 0xDD6),
     (0xE31, 0xE31), (0xE34, 0xE3A), (0xE46, 0xE4E), (0xEB1, 0xEB1), (0xEB4, 0xEBC),
     (0xEC6, 0xEC6), (0xEC8, 0xECD), (0xF18, 0xF19), (0xF35, 0xF35), (0xF37, 0xF37),
     (0xF39, 0xF39), (0xF71, 0xF7E), (0xF80, 0xF84), (0xF86, 0xF87), (0xF8D, 0xF97),
     (0xF99, 0xFBC), (0xFC6, 0xFC6), (0x102D, 0x1030), (0x1032, 0x1037), (0x1039, 0x103A),
     (0x103D, 0x103E), (0x1058, 0x1059), (0x105E, 0x1060), (0x1071, 0x1074), (0x1082, 0x1082),
     (0x1085, 0x1086), (0x108D, 0x108D), (0x109D, 0x109D), (0x10FC, 0x10FC), (0x135D, 0x135F),
     (0x1712, 0x1714), (0x1732, 0x1733), (0x1752, 0x1753), (0x1772, 0x1773), (0x17B4, 0x17B5),
     (0x17B7, 0x17BD), (0x17C6, 0x17C6), (0x17C9, 0x17D3), (0x17D7, 0x17D7), (0x17DD, 0x17DD),
     (0x180B, 0x180F), (0x1843, 0x1843), (0x1885, 0x1886), (0x18A9, 0x18A9), (0x1920, 0x1922),
     (0x1927, 0x1928), (0x1932, 0x1932), (0x1939, 0x193B), (0x1A17, 0x1A18), (0x1A1B, 0x1A1B),
     (0x1A56, 0x1A56), (0x1A58, 0x1A5E), (0x1A60, 0x1A60), (0x1A62, 0x1A62), (0x1A65, 0x1A6C),
     (0x1A73, 0x1A7C), (0x1A7F, 0x1A7F), (0x1AA7, 0x1AA7), (0x1AB0, 0x1ACE), (0x1B00, 0x1B03),
     (0x1B34, 0x1B34), (0x1B36, 0x1B3A), (0x1B3C, 0x1B3C), (0x1B42, 0x1B42), (0x1B6B, 0x1B73),
     (0x1B80, 0x1B81), (0x1BA2, 0x1BA5), (0x1BA8, 0x1BA9), (0x1BAB, 0x1BAD), (0x1BE6, 0x1BE6),
     (0x1BE8, 0x1BE9), (0x1BED, 0x1BED), (0x1BEF, 0x1BF1), (0x1C2C, 0x1C33), (0x1C36, 0x1C37),
     (0x1C78, 0x1C7D), (0x1CD0, 0x1CD2), (0x1CD4, 0x1CE0), (0x1CE2, 0x1CE8), (0x1CED, 0x1CED),
     (0x1CF4, 0x1CF4), (0x1CF8, 0x1CF9), (0x1D2C, 0x1D6A), (0x1D78, 0x1D78), (0x1D9B, 0x1DFF),
     (0x1FBD, 0x1FBD), (0x1FBF, 0x1FC1), (0x1FCD, 0x1FCF), (0x1FDD, 0x1FDF), (0x1FED, 0x1FEF),
     (0x1FFD, 0x1FFE), (0x200B, 0x200F), (0x2018, 0x2019), (0x2024, 0x2024), (0x2027, 0x2027),
     (0x202A, 0x202E), (0x2060, 0x2064), (0x2066, 0x206F), (0x2071, 0x2071), (0x207F, 0x207F),
     (0x2090, 0x209C), (0x20D0, 0x20F0), (0x2C7C, 0x2C7D), (0x2CEF, 0x2CF1), (0x2D6F, 0x2D6F),
     (0x2D7F, 0x2D7F), (0x2DE0, 0x2DFF), (0x2E2F, 0x2E2F), (0x3005, 0x3005), (0x302A, 0x302D),
     (0x3031, 0x3035), (0x303B, 0x303B), (0x3099, 0x309E), (0x30FC, 0x30FE), (0xA015, 0xA015),
     (0xA4F8, 0xA4FD), (0xA60C, 0xA60C), (0xA66F, 0xA672), (0xA674, 0xA67D), (0xA67F, 0xA67F),
     (0xA69C, 0xA69F), (0xA6F0, 0xA6F1), (0xA700, 0xA721), (0xA770, 0xA770), (0xA788, 0xA78A),
     (0xA7F2, 0xA7F4), (0xA7F8, 0xA7F9), (0xA802, 0xA802), (0xA806, 0xA806), (0xA80B, 0xA80B),
     (0xA825, 0xA826), (0xA82C, 0xA82C), (0xA8C4, 0xA8C5), (0xA8E0, 0xA8F1), (0xA8FF, 0xA8FF),
     (0xA926, 0xA92D), (0xA947, 0xA951), (0xA980, 0xA982), (0xA9B3, 0xA9B3), (0xA9B6, 0xA9B9),
     (0xA9BC, 0xA9BD), (0xA9CF, 0xA9CF), (0xA9E5, 0xA9E6), (0xAA29, 0xAA2E), (0xAA31, 0xAA32),
     (0xAA35, 0xAA36), (0xAA43, 0xAA43), (0xAA4C, 0xAA4C), (0xAA70, 0xAA70), (0xAA7C, 0xAA7C),
     (0xAAB0, 0xAAB0), (0xAAB2, 0xAAB4), (0xAAB7, 0xAAB8), (0xAABE, 0xAABF), (0xAAC1, 0xAAC1),
     (0xAADD, 0xAADD), (0xAAEC, 0xAAED), (0xAAF3, 0xAAF4), (0xAAF6, 0xAAF6), (0xAB5B, 0xAB5F),
     (0xAB69, 0xAB6B), (0xABE5, 0xABE5), (0xABE8, 0xABE8), (0xABED, 0xABED), (0xFB1E, 0xFB1E),
     (0xFBB2, 0xFBC2), (0xFE00, 0xFE0F), (0xFE13, 0xFE13), (0xFE20, 0xFE2F), (0xFE52, 0xFE52),
     (0xFE55, 0xFE55), (0xFEFF, 0xFEFF), (0xFF07, 0xFF07), (0xFF0E, 0xFF0E), (0xFF1A, 0xFF1A),
     (0xFF3E, 0xFF3E), (0xFF40, 0xFF40), (0xFF70, 0xFF70), (0xFF9E, 0xFF9F), (0xFFE3, 0xFFE3),
     (0xFFF9, 0xFFFB), (0x101FD, 0x101FD), (0x102E0, 0x102E0), (0x10376, 0x1037A),
     (0x10780, 0x10785), (0x10787, 0x107B0), (0x107B2, 0x107BA), (0x10A01, 0x10A03),
     (0x10A05, 0x10A06), (0x10A0C, 0x10A0F), (0x10A38, 0x10A3A), (0x10A3F, 0x10A3F),
     (0x10AE5, 0x10AE6), (0x10D24, 0x10D27), (0x10EAB, 0x10EAC), (0x10F46, 0x10F50),
     (0x10F82, 0x10F85), (0x11001, 0x11001), (0x11038, 0x11046), (0x11070, 0x11070),
     (0x11073, 0x11074), (0x1107F, 0x11081), (0x110B3, 0x110B6), (0x110B9, 0x110BA),
     (0x110BD, 0x110BD), (0x110C2, 0x110C2), (0x110CD, 0x110CD), (0x11100, 0x11102),
     (0x11127, 0x1112B), (0x1112D, 0x11134), (0x11173, 0x11173), (0x11180, 0x11181),
     (0x111B6, 0x111BE), (0x111C9, 0x111CC), (0x111CF, 0x111CF), (0x1122F, 0x11231),
     (0x11234, 0x11234), (0x11236, 0x11237), (0x1123E, 0x1123E), (0x112DF, 0x112DF),
     (0x112E3, 0x112EA), (0x11300, 0x11301), (0x1133B, 0x1133C), (0x11340, 0x11340),
     (0x11366, 0x1136C), (0x11370, 0x11374), (0x11438, 0x1143F), (0x11442, 0x11444),
     (0x11446, 0x11446), (0x1145E, 0x1145E), (0x114B3, 0x114B8), (0x114BA, 0x114BA),
     (0x114BF, 0x114C0), (0x114C2, 0x114C3), (0x115B2, 0x115B5), (0x115BC, 0x115BD),
     (0x115BF, 0x115C0), (0x115DC, 0x115DD), (0x11633, 0x1163A), (0x1163D, 0x1163D),
     (0x1163F, 0x11640), (0x116AB, 0x116AB), (0x116AD, 0x116AD), (0x116B0, 0x116B5),
     (0x116B7, 0x116B7), (0x1171D, 0x1171F), (0x11722, 0x11725), (0x11727, 0x1172B),
     (0x1182F, 0x11837), (0x11839, 0x1183A), (0x1193B, 0x1193C), (0x1193E, 0x1193E),
     (0x11943, 0x11943), (0x119D4, 0x119D7), (0x119DA, 0x119DB), (0x119E0, 0x119E0),
     (0x11A01, 0x11A0A), (0x11A33, 0x11A38), (0x11A3B, 0x11A3E), (0x11A47, 0x11A47),
     (0x11A51, 0x11A56), (0x11A59, 0x11A5B), (0x11A8A, 0x11A96), (0x11A98, 0x11A99),
     (0x11C30, 0x11C36), (0x11C38, 0x11C3D), (0x11C3F, 0x11C3F), (0x11C92, 0x11CA7),
     (0x11CAA, 0x11CB0), (0x11CB2, 0x11CB3), (0x11CB5, 0x11CB6), (0x11D31, 0x11D36),
     (0x11D3A, 0x11D3A), (0x11D3C, 0x11D3D), (0x11D3F, 0x11D45), (0x11D47, 0x11D47),
     (0x11D90, 0x11D91), (0x11D95, 0x11D95), (0x11D97, 0x11D97), (0x11EF3, 0x11EF4),
     (0x13430, 0x13438), (0x16AF0, 0x16AF4), (0x16B30, 0x16B36), (0x16B40, 0x16B43),
     (0x16F4F, 0x16F4F), (0x16F8F, 0x16F9F), (0x16FE0, 0x16FE1), (0x16FE3, 0x16FE4),
     (0x1AFF0, 0x1AFF3), (0x1AFF5, 0x1AFFB), (0x1AFFD, 0x1AFFE), (0x1BC9D, 0x1BC9E),
     (0x1BCA0, 0x1BCA3), (0x1CF00, 0x1CF2D), (0x1CF30, 0x1CF46), (0x1D167, 0x1D169),
     (0x1D173, 0x1D182), (0x1D185, 0x1D18B), (0x1D1AA, 0x1D1AD), (0x1D242, 0x1D244),
     (0x1DA00, 0x1DA36), (0x1DA3B, 0x1DA6C), (0x1DA75, 0x1DA75), (0x1DA84, 0x1DA84),
     (0x1DA9B, 0x1DA9F), (0x1DAA1, 0x1DAAF), (0x1E000, 0x1E006), (0x1E008, 0x1E018),
     (0x1E01B, 0x1E021), (0x1E023, 0x1E024), (0x1E026, 0x1E02A), (0x1E130, 0x1E13D),
     (0x1E2AE, 0x1E2AE), (0x1E2EC, 0x1E2EF), (0x1E8D0, 0x1E8D6), (0x1E944, 0x1E94B),
     (0x1F3FB, 0x1F3FF), (0xE0001, 0xE0001), (0xE0020, 0xE007F), (0xE0100, 0xE01EF)
    ]"

definition casedRanges :: "(nat \<times> nat) list" where
  "casedRanges =
    [
     (0x41, 0x5A), (0x61, 0x7A), (0xAA, 0xAA), (0xB5, 0xB5), (0xBA, 0xBA), (0xC0, 0xD6),
     (0xD8, 0xF6), (0xF8, 0x1BA), (0x1BC, 0x1BF), (0x1C4, 0x293), (0x295, 0x2AF),
     (0x370, 0x373), (0x376, 0x377), (0x37B, 0x37D), (0x37F, 0x37F), (0x386, 0x386),
     (0x388, 0x38A), (0x38C, 0x38C), (0x38E, 0x3A1), (0x3A3, 0x3F5), (0x3F7, 0x481),
     (0x48A, 0x52F), (0x531, 0x556), (0x560, 0x588), (0x10A0, 0x10C5), (0x10C7, 0x10C7),
     (0x10CD, 0x10CD), (0x10D0, 0x10FA), (0x10FD, 0x10FF), (0x13A0, 0x13F5), (0x13F8, 0x13FD),
     (0x1C80, 0x1C88), (0x1C90, 0x1CBA), (0x1CBD, 0x1CBF), (0x1D00, 0x1D2B), (0x1D6B, 0x1D77),
     (0x1D79, 0x1D9A), (0x1E00, 0x1F15), (0x1F18, 0x1F1D), (0x1F20, 0x1F45), (0x1F48, 0x1F4D),
     (0x1F50, 0x1F57), (0x1F59, 0x1F59), (0x1F5B, 0x1F5B), (0x1F5D, 0x1F5D), (0x1F5F, 0x1F7D),
     (0x1F80, 0x1FB4), (0x1FB6, 0x1FBC), (0x1FBE, 0x1FBE), (0x1FC2, 0x1FC4), (0x1FC6, 0x1FCC),
     (0x1FD0, 0x1FD3), (0x1FD6, 0x1FDB), (0x1FE0, 0x1FEC), (0x1FF2, 0x1FF4), (0x1FF6, 0x1FFC),
     (0x2102, 0x2102), (0x2107, 0x2107), (0x210A, 0x2113), (0x2115, 0x2115), (0x2119, 0x211D),
     (0x2124, 0x2124), (0x2126, 0x2126), (0x2128, 0x2128), (0x212A, 0x212D), (0x212F, 0x2134),
     (0x2139, 0x2139), (0x213C, 0x213F), (0x2145, 0x2149), (0x214E, 0x214E), (0x2160, 0x217F),
     (0x2183, 0x2184), (0x24B6, 0x24E9), (0x2C00, 0x2C7B), (0x2C7E, 0x2CE4), (0x2CEB, 0x2CEE),
     (0x2CF2, 0x2CF3), (0x2D00, 0x2D25), (0x2D27, 0x2D27), (0x2D2D, 0x2D2D), (0xA640, 0xA66D),
     (0xA680, 0xA69B), (0xA722, 0xA76F), (0xA771, 0xA787), (0xA78B, 0xA78E), (0xA790, 0xA7CA),
     (0xA7D0, 0xA7D1), (0xA7D3, 0xA7D3), (0xA7D5, 0xA7D9), (0xA7F5, 0xA7F6), (0xA7FA, 0xA7FA),
     (0xAB30, 0xAB5A), (0xAB60, 0xAB68), (0xAB70, 0xABBF), (0xFB00, 0xFB06), (0xFB13, 0xFB17),
     (0xFF21, 0xFF3A), (0xFF41, 0xFF5A), (0x10400, 0x1044F), (0x104B0, 0x104D3),
     (0x104D8, 0x104FB), (0x10570, 0x1057A), (0x1057C, 0x1058A), (0x1058C, 0x10592),
     (0x10594, 0x10595), (0x10597, 0x105A1), (0x105A3, 0x105B1), (0x105B3, 0x105B9),
     (0x105BB, 0x105BC), (0x10C80, 0x10CB2), (0x10CC0, 0x10CF2), (0x118A0, 0x118DF),
     (0x16E40, 0x16E7F), (0x1D400, 0x1D454), (0x1D456, 0x1D49C), (0x1D49E, 0x1D49F),
     (0x1D4A2, 0x1D4A2), (0x1D4A5, 0x1D4A6), (0x1D4A9, 0x1D4AC), (0x1D4AE, 0x1D4B9),
     (0x1D4BB, 0x1D4BB), (0x1D4BD, 0x1D4C3), (0x1D4C5, 0x1D505), (0x1D507, 0x1D50A),
     (0x1D50D, 0x1D514), (0x1D516, 0x1D51C), (0x1D51E, 0x1D539), (0x1D53B, 0x1D53E),
     (0x1D540, 0x1D544), (0x1D546, 0x1D546), (0x1D54A, 0x1D550), (0x1D552, 0x1D6A5),
     (0x1D6A8, 0x1D6C0), (0x1D6C2, 0x1D6DA), (0x1D6DC, 0x1D6FA), (0x1D6FC, 0x1D714),
     (0x1D716, 0x1D734), (0x1D736, 0x1D74E), (0x1D750, 0x1D76E), (0x1D770, 0x1D788),
     (0x1D78A, 0x1D7A8), (0x1D7AA, 0x1D7C2), (0x1D7C4, 0x1D7CB), (0x1DF00, 0x1DF09),
     (0x1DF0B, 0x1DF1E), (0x1E900, 0x1E943), (0x1F130, 0x1F149), (0x1F150, 0x1F169),
     (0x1F170, 0x1F189)
    ]"

definition inRanges :: "(nat \<times> nat) list \<Rightarrow> nat \<Rightarrow> bool" where
  "inRanges rs p = list_ex (\<lambda>(lo, hi). lo \<le> p \<and> p \<le> hi) rs"

definition casedNext :: "nat list \<Rightarrow> bool" where
  "casedNext ps =
     (case dropWhile (inRanges caseIgnorableRanges) ps of
        [] \<Rightarrow> False
      | p # rest \<Rightarrow> inRanges casedRanges p)"

text \<open>
  \<open>seen\<close> holds the code points already read, the nearest first. The capital I with a dot
  above is the one code point whose lower case is two code points.
\<close>

fun lowerFrom :: "nat list \<Rightarrow> nat list \<Rightarrow> nat list" where
  "lowerFrom seen [] = []"
| "lowerFrom seen (p # ps) =
     (if p = 0x3A3 then [if casedNext seen \<and> \<not> casedNext ps then 0x3C2 else 0x3C3]
      else if p = 0x130 then [0x69, 0x307]
      else [lowerPoint p])
     @ lowerFrom (p # seen) ps"

definition toLowerCase :: "jsstring \<Rightarrow> jsstring" where
  "toLowerCase s = encode (lowerFrom [] (decode s))"

text \<open>
  \<^verbatim>\<open>s.split(sep)\<close> for a non-empty string separator: the occurrences of \<open>sep\<close> are found
  from the left and do not overlap. \<open>cur\<close> is the segment being read.
\<close>

function splitFrom :: "jsstring \<Rightarrow> jsstring \<Rightarrow> jsstring \<Rightarrow> jsstring list" where
  "splitFrom sep cur s =
     (if s = [] then [cur]
      else if sep \<noteq> [] \<and> prefix sep s then cur # splitFrom sep [] (drop (length sep) s)
      else splitFrom sep (cur @ [hd s]) (tl s))"
  by pat_completeness auto
termination
  by (relation "measure (\<lambda>(sep, cur, s). length s)") auto

definition split :: "jsstring \<Rightarrow> jsstring \<Rightarrow> jsstring list" where
  "split s sep = splitFrom sep [] s"

text \<open>Numbers in template literals: integers in decimal.\<close>

function show_nat :: "nat \<Rightarrow> jsstring" where
  "show_nat n = (if n < 10 then [0x30 + n] else show_nat (n div 10) @ [0x30 + n mod 10])"
  by pat_completeness auto
termination
  by (relation "measure id") auto

definition show_int :: "int \<Rightarrow> jsstring" where
  "show_int i = (if i < 0 then 0x2D # show_nat (nat (- i)) else show_nat (nat i))"

text \<open>
  A value in a template literal: \<^verbatim>\<open>undefined\<close> (a property that is absent) and
  \<^verbatim>\<open>null\<close> (a column that is empty) are spelled out.
\<close>

definition tmpl :: "jsstring option \<Rightarrow> jsstring" where
  "tmpl v = (case v of None \<Rightarrow> str ''undefined'' | Some s \<Rightarrow> s)"

definition tmplNull :: "jsstring option \<Rightarrow> jsstring" where
  "tmplNull v = (case v of None \<Rightarrow> str ''null'' | Some s \<Rightarrow> s)"

definition tmplInt :: "int option \<Rightarrow> jsstring" where
  "tmplInt v = (case v of None \<Rightarrow> str ''undefined'' | Some i \<Rightarrow> show_int i)"

definition tmplIntNull :: "int option \<Rightarrow> jsstring" where
  "tmplIntNull v = (case v of None \<Rightarrow> str ''null'' | Some i \<Rightarrow> show_int i)"

text \<open>\<^verbatim>\<open>v || d\<close> on an optional string and on an optional number.\<close>

definition orElse :: "jsstring option \<Rightarrow> jsstring \<Rightarrow> jsstring" where
  "orElse v d = (case v of None \<Rightarrow> d | Some s \<Rightarrow> if s = [] then d else s)"

definition orElseInt :: "int option \<Rightarrow> int \<Rightarrow> int" where
  "orElseInt v d = (case v of None \<Rightarrow> d | Some i \<Rightarrow> if i = 0 then d else i)"

text \<open>\<^verbatim>\<open>xs.join(sep)\<close>.\<close>

fun join :: "jsstring list \<Rightarrow> jsstring \<Rightarrow> jsstring" where
  "join [] sep = []"
| "join [x] sep = x"
| "join (x # y # ys) sep = x @ sep @ join (y # ys) sep"

text \<open>
  \<^verbatim>\<open>parseInt(s)\<close>: leading white space, a sign, then the digits of a decimal number, or of
  a hexadecimal one after \<^verbatim>\<open>0x\<close>. The result is a Number: the integer read is rounded to the
  nearest double, ties to even, and is infinite from \<open>2 ^ 1024\<close> on. \<open>None\<close> is \<^verbatim>\<open>NaN\<close> or an
  infinity; both are written as \<^verbatim>\<open>null\<close> in JSON. The language lets an engine read the
  decimal digits after the twentieth as zeros; here the exact integer is rounded.
\<close>

function bitLength :: "nat \<Rightarrow> nat" where
  "bitLength n = (if n = 0 then 0 else Suc (bitLength (n div 2)))"
  by pat_completeness auto
termination
  by (relation "measure id") auto

definition toDouble :: "nat \<Rightarrow> nat option" where
  "toDouble n =
     (if n < 2 ^ 53 then Some n
      else
        (let e = bitLength n - 53;
             q = n div 2 ^ e;
             r = n mod 2 ^ e;
             half = 2 ^ (e - 1);
             q1 = (if r > half \<or> (r = half \<and> odd q) then q + 1 else q)
         in if q1 * 2 ^ e \<ge> 2 ^ 1024 then None else Some (q1 * 2 ^ e)))"

definition digitValue :: "nat \<Rightarrow> nat \<Rightarrow> nat option" where
  "digitValue radix c =
     (let v = (if 0x30 \<le> c \<and> c \<le> 0x39 then Some (c - 0x30)
               else if 0x61 \<le> c \<and> c \<le> 0x7A then Some (c - 0x61 + 10)
               else if 0x41 \<le> c \<and> c \<le> 0x5A then Some (c - 0x41 + 10)
               else None)
      in case v of None \<Rightarrow> None | Some d \<Rightarrow> if d < radix then Some d else None)"

fun digitsFrom :: "nat \<Rightarrow> nat option \<Rightarrow> jsstring \<Rightarrow> nat option" where
  "digitsFrom radix acc [] = acc"
| "digitsFrom radix acc (c # cs) =
     (case digitValue radix c of
        None \<Rightarrow> acc
      | Some d \<Rightarrow> digitsFrom radix (Some ((case acc of None \<Rightarrow> 0 | Some a \<Rightarrow> a) * radix + d)) cs)"

definition parseInt :: "jsstring \<Rightarrow> int option" where
  "parseInt s =
     (let t = trimStart s;
          neg = (t \<noteq> [] \<and> hd t = 0x2D);
          u = (if t \<noteq> [] \<and> (hd t = 0x2D \<or> hd t = 0x2B) then tl t else t);
          hex = (prefix (str ''0x'') u \<or> prefix (str ''0X'') u);
          m = (if hex then digitsFrom 16 None (drop 2 u) else digitsFrom 10 None u)
      in case m of
           None \<Rightarrow> None
         | Some n \<Rightarrow>
             (case toDouble n of
                None \<Rightarrow> None
              | Some d \<Rightarrow> Some (if neg then - int d else int d)))"

section \<open>Data model\<close>

text \<open>
  Objects of the program are records whose fields are optional where the JavaScript
  property may be absent. The arguments of a tool call are one object carrying the
  properties that the six tool schemas declare; the same object is what a saved recipe
  keeps as its payload.
\<close>

record item =
  item_name :: "jsstring option"
  item_quantity :: "jsstring option"
  item_category :: "jsstring option"

text \<open>
  An ingredient is a plain string (the \<^verbatim>\<open>save_recipe\<close> tool schema) or an object with
  amount, name and notes (the recipes learned from a URL); likewise a step.
\<close>

datatype ingredient =
    IngText jsstring
  | IngObj "jsstring option" "jsstring option" "jsstring option"

datatype rstep =
    StepText jsstring
  | StepObj "int option" "jsstring option"

text \<open>Reading a property: a string has none of them.\<close>

fun ing_amount :: "ingredient \<Rightarrow> jsstring option" where
  "ing_amount (IngText t) = None"
| "ing_amount (IngObj a n t) = a"

fun ing_name :: "ingredient \<Rightarrow> jsstring option" where
  "ing_name (IngText t) = None"
| "ing_name (IngObj a n t) = n"

fun ing_notes :: "ingredient \<Rightarrow> jsstring option" where
  "ing_notes (IngText t) = None"
| "ing_notes (IngObj a n t) = t"

fun step_step :: "rstep \<Rightarrow> int option" where
  "step_step (StepText t) = None"
| "step_step (StepObj n i) = n"

fun step_instruction :: "rstep \<Rightarrow> jsstring option" where
  "step_instruction (StepText t) = None"
| "step_instruction (StepObj n i) = i"

record toolArgs =
  items :: "item list option"
  title :: "jsstring option"
  description :: "jsstring option"
  ingredients :: "ingredient list option"
  steps :: "rstep list option"
  tags :: "jsstring list option"
  difficulty :: "jsstring option"
  prep_time :: "jsstring option"
  cook_time :: "jsstring option"
  servings :: "int option"
  preference_type :: "jsstring option"
  preference_value :: "jsstring option"
  confidence :: "int option"
  original_ingredient :: "jsstring option"
  alternatives :: "jsstring list option"
  step_number :: "int option"
  step_description :: "jsstring option"
  query :: "jsstring option"
  reason :: "jsstring option"

record functionCall =
  call_name :: jsstring
  call_args :: "toolArgs option"

text \<open>An entry of the actions list: one constructor per shape of object the code builds.\<close>

datatype action =
    ShoppingListAdded "item list" jsstring
  | RecipeSaved toolArgs jsstring
  | PreferenceUpdated toolArgs jsstring
  | SubstitutionSuggested toolArgs jsstring
  | RecipeStepGuided toolArgs jsstring
  | ReferenceImages (ri_query: jsstring) (ri_reason: jsstring) (ri_message: "jsstring option")
  | ActionError jsstring

text \<open>
  A conversation turn as the history holds it, in memory and as selected from storage. Its
  content is a string, \<^verbatim>\<open>undefined\<close> (a reply that was never set) or \<^verbatim>\<open>null\<close> (an empty
  column).
\<close>

datatype content = Undefined | Null | Text jsstring

record histEntry =
  memory_type :: jsstring
  memory_content :: content
  created_at :: int

subsection \<open>The datastore\<close>

text \<open>
  The four tables the conversation service uses. Times are milliseconds. The table
  declarations are not part of the sources: the columns are those the queries name.
\<close>

record memoryRow =
  m_user_id :: jsstring
  m_type :: jsstring
  m_content :: "jsstring option"
  m_confidence :: int
  m_created_at :: int
  m_expires_at :: "int option"

record preferenceRow =
  p_user_id :: jsstring
  p_type :: "jsstring option"
  p_value :: "jsstring option"
  p_confidence :: int
  p_last_used :: int

record shoppingRow =
  s_user_id :: jsstring
  s_item :: "jsstring option"
  s_quantity :: jsstring
  s_category :: jsstring
  s_priority :: int

record recipeRow =
  r_user_id :: jsstring
  r_title :: "jsstring option"
  r_recipe_data :: "toolArgs option"
  r_tags :: "jsstring list"
  r_difficulty :: "jsstring option"
  r_prep_time :: "int option"
  r_cook_time :: "int option"
  r_servings :: int
  r_source_type :: jsstring
  r_created_at :: int

record datastore =
  conversation_memory :: "memoryRow list"
  user_preferences :: "preferenceRow list"
  shopping_lists :: "shoppingRow list"
  saved_recipes :: "recipeRow list"

datatype table = ConversationMemory | UserPreferences | ShoppingLists | SavedRecipes

subsection \<open>The world outside the process\<close>

text \<open>
  What the program observes of its environment: whether the datastore client and the
  model key are configured, how a datastore call ends, and what the model answers.
\<close>

datatype outcome = CallOk | CallError | CallThrows

datatype functionCallsShape =
    Accessor "functionCall list option"
  | AccessorThrows
  | Property "functionCall list"
  | NoFunctionCalls

record modelResponse =
  blockReason :: "jsstring option"
  finishReason :: "jsstring option"
  responseText :: "jsstring option"
  functionCalls :: functionCallsShape
  candidateParts :: "functionCall option list option"

text \<open>
  What \<^verbatim>\<open>analyzeNutrition\<close> returns: the value the model's JSON parses to, which is truthy
  (an object, as a rule) or falsy (\<^verbatim>\<open>null\<close>, \<^verbatim>\<open>0\<close>, \<^verbatim>\<open>false\<close>, the empty string), or the hand-built
  default carrying the servings and the raw text.
\<close>

datatype nutrition = ParsedNutrition jsstring | FalsyNutrition jsstring | DefaultNutrition int jsstring

fun truthy :: "nutrition \<Rightarrow> bool" where
  "truthy (FalsyNutrition t) = False"
| "truthy n = True"

datatype parseResult = ParseError | ParsedFalsy | ParsedTruthy

text \<open>
  \<open>generateContent\<close> answers a prompt of the conversation model (\<open>None\<close>: the call
  throws); \<open>nutritionModel\<close> gives the text the model returns for the nutrition prompt built
  from a recipe text (\<open>None\<close>: the call throws) and \<open>parseJson\<close> says what \<^verbatim>\<open>JSON.parse\<close>
  makes of that text, cleaned of its code fences. The last two fields are the defaults that
  the table \<^verbatim>\<open>conversation_memory\<close> gives to columns an insert leaves out.
\<close>

record world =
  supabaseConfigured :: bool
  apiKeyConfigured :: bool
  writeOutcome :: "table \<Rightarrow> outcome"
  readOutcome :: "table \<Rightarrow> outcome"
  generateContent :: "jsstring \<Rightarrow> modelResponse option"
  nutritionModel :: "jsstring \<Rightarrow> jsstring option"
  parseJson :: "jsstring \<Rightarrow> parseResult"
  defaultConfidence :: int
  defaultExpiresAt :: "int \<Rightarrow> int option"

text \<open>
  What the program does to its environment, in order: the calls to the model, the
  datastore calls with the user id they carry, and the lines written by
  \<^verbatim>\<open>console.error\<close> (by their fixed first argument).
\<close>

datatype event =
    ModelCall jsstring
  | NutritionCall jsstring
  | DbRead table jsstring
  | DbWrite table jsstring
  | ConsoleError jsstring

record state =
  conversationHistory :: "jsstring \<Rightarrow> histEntry list option"
  db :: datastore
  trace :: "event list"

definition emit :: "event list \<Rightarrow> state \<Rightarrow> state" where
  "emit es s = s\<lparr>trace := trace s @ es\<rparr>"

definition isDbWrite :: "event \<Rightarrow> bool" where
  "isDbWrite e = (case e of DbWrite t u \<Rightarrow> True | _ \<Rightarrow> False)"

definition isModelCall :: "event \<Rightarrow> bool" where
  "isModelCall e = (case e of ModelCall p \<Rightarrow> True | NutritionCall p \<Rightarrow> True | _ \<Rightarrow> False)"

definition isNutritionCall :: "event \<Rightarrow> bool" where
  "isNutritionCall e = (case e of NutritionCall p \<Rightarrow> True | _ \<Rightarrow> False)"

definition isConsoleError :: "event \<Rightarrow> bool" where
  "isConsoleError e = (case e of ConsoleError p \<Rightarrow> True | _ \<Rightarrow> False)"

text \<open>The number of events of a kind in the trace, and the prompts sent to the model.\<close>

definition countEvents :: "(event \<Rightarrow> bool) \<Rightarrow> state \<Rightarrow> nat" where
  "countEvents P s = length (filter P (trace s))"

fun promptOf :: "event \<Rightarrow> jsstring option" where
  "promptOf (ModelCall p) = Some p"
| "promptOf e = None"

definition modelPrompts :: "state \<Rightarrow> jsstring list" where
  "modelPrompts s = List.map_filter promptOf (trace s)"

section \<open>User data functions\<close>

definition hexDigit :: "nat \<Rightarrow> bool" where
  "hexDigit c = ((0x30 \<le> c \<and> c \<le> 0x39) \<or> (0x61 \<le> c \<and> c \<le> 0x66) \<or> (0x41 \<le> c \<and> c \<le> 0x46))"

text \<open>
  \<^verbatim>\<open>/^[0-9a-f]{8}-[0-9a-f]{4}-[1-5][0-9a-f]{3}-[89ab][0-9a-f]{3}-[0-9a-f]{12}$/i\<close>:
  36 code units, hyphens at 8, 13, 18 and 23, a version digit 1 to 5 at 14, a variant
  digit 8, 9, a or b at 19, hexadecimal digits elsewhere.
\<close>

definition isValidUUID :: "jsstring \<Rightarrow> bool" where
  "isValidUUID u =
     (length u = 36
      \<and> list_all (\<lambda>i.
            if i \<in> set [8, 13, 18, 23] then u ! i = 0x2D
            else if i = 14 then 0x31 \<le> u ! i \<and> u ! i \<le> 0x35
            else if i = 19 then u ! i \<in> set [0x38, 0x39, 0x61, 0x62, 0x41, 0x42]
            else hexDigit (u ! i)) [0 ..< 36])"

definition upsertPreference :: "preferenceRow \<Rightarrow> preferenceRow list \<Rightarrow> preferenceRow list" where
  \<comment> \<open>Modelled from the spec: the declaration of the table and its conflict key are not in
      the sources; a preference is upserted keyed by (user, type).\<close>
  "upsertPreference r rows =
     filter (\<lambda>q. \<not> (p_user_id q = p_user_id r \<and> p_type q = p_type r)) rows @ [r]"

definition saveUserPreference ::
  "world \<Rightarrow> int \<Rightarrow> jsstring \<Rightarrow> jsstring option \<Rightarrow> jsstring option \<Rightarrow> int \<Rightarrow> state \<Rightarrow> bool \<times> state" where
  "saveUserPreference w now userId preferenceType preferenceValue conf s =
     (if \<not> supabaseConfigured w then (False, s)
      else case writeOutcome w UserPreferences of
        CallOk \<Rightarrow>
          (True, emit [DbWrite UserPreferences userId]
             (s\<lparr>db := (db s)\<lparr>user_preferences :=
                  upsertPreference \<lparr>p_user_id = userId, p_type = preferenceType,
                      p_value = preferenceValue, p_confidence = conf, p_last_used = now\<rparr>
                    (user_preferences (db s))\<rparr>\<rparr>))
      | CallError \<Rightarrow>
          (False, emit [DbWrite UserPreferences userId,
                        ConsoleError (str ''User data service: Error saving preference:'')] s)
      | CallThrows \<Rightarrow>
          (False, emit [DbWrite UserPreferences userId,
                        ConsoleError (str ''User data service: Error in saveUserPreference:'')] s))"

definition shoppingItem :: "jsstring \<Rightarrow> item \<Rightarrow> shoppingRow" where
  "shoppingItem userId it =
     \<lparr>s_user_id = userId, s_item = item_name it, s_quantity = orElse (item_quantity it) [],
      s_category = orElse (item_category it) (str ''general''), s_priority = 2\<rparr>"

text \<open>
  \<open>items\<close> is \<open>None\<close> when the tool call has no \<^verbatim>\<open>items\<close>: \<^verbatim>\<open>items.map\<close> then throws inside
  the \<^verbatim>\<open>try\<close>, before any datastore call.
\<close>

definition addToShoppingList ::
  "world \<Rightarrow> jsstring \<Rightarrow> item list option \<Rightarrow> state \<Rightarrow> bool \<times> state" where
  "addToShoppingList w userId its s =
     (if \<not> supabaseConfigured w then (False, s)
      else case its of
        None \<Rightarrow> (False, emit [ConsoleError (str ''User data service: Error in addToShoppingList:'')] s)
      | Some l \<Rightarrow>
         (case writeOutcome w ShoppingLists of
            CallOk \<Rightarrow>
              (True, emit [DbWrite ShoppingLists userId]
                 (s\<lparr>db := (db s)\<lparr>shopping_lists :=
                      shopping_lists (db s) @ map (shoppingItem userId) l\<rparr>\<rparr>))
          | CallError \<Rightarrow>
              (False, emit [DbWrite ShoppingLists userId,
                            ConsoleError (str ''User data service: Error adding to shopping list:'')] s)
          | CallThrows \<Rightarrow>
              (False, emit [DbWrite ShoppingLists userId,
                            ConsoleError (str ''User data service: Error in addToShoppingList:'')] s)))"

definition parseTime :: "jsstring option \<Rightarrow> int option" where
  "parseTime v = (case v of None \<Rightarrow> None | Some t \<Rightarrow> if t = [] then None else parseInt t)"

definition recipeRowOf :: "int \<Rightarrow> jsstring \<Rightarrow> toolArgs \<Rightarrow> recipeRow" where
  "recipeRowOf now userId recipeData =
     \<lparr>r_user_id = userId, r_title = title recipeData, r_recipe_data = Some recipeData,
      r_tags = (case tags recipeData of None \<Rightarrow> [] | Some ts \<Rightarrow> ts),
      r_difficulty = Some (orElse (difficulty recipeData) (str ''medium'')),
      r_prep_time = parseTime (prep_time recipeData),
      r_cook_time = parseTime (cook_time recipeData),
      r_servings = orElseInt (servings recipeData) 4,
      r_source_type = str ''chat'', r_created_at = now\<rparr>"

text \<open>
  \<open>recipeData\<close> is \<open>None\<close> when the tool call has no arguments: reading \<^verbatim>\<open>recipeData.title\<close>
  then throws inside the \<^verbatim>\<open>try\<close>. The row's creation time is that of the insert.
\<close>

definition saveRecipe ::
  "world \<Rightarrow> int \<Rightarrow> jsstring \<Rightarrow> toolArgs option \<Rightarrow> state \<Rightarrow> bool \<times> state" where
  "saveRecipe w now userId recipeData s =
     (if \<not> supabaseConfigured w then (False, s)
      else case recipeData of
        None \<Rightarrow> (False, emit [ConsoleError (str ''User data service: Error in saveRecipe:'')] s)
      | Some rd \<Rightarrow>
         (case writeOutcome w SavedRecipes of
            CallOk \<Rightarrow>
              (True, emit [DbWrite SavedRecipes userId]
                 (s\<lparr>db := (db s)\<lparr>saved_recipes :=
                      saved_recipes (db s) @ [recipeRowOf now userId rd]\<rparr>\<rparr>))
          | CallError \<Rightarrow>
              (False, emit [DbWrite SavedRecipes userId,
                            ConsoleError (str ''User data service: Error saving recipe:'')] s)
          | CallThrows \<Rightarrow>
              (False, emit [DbWrite SavedRecipes userId,
                            ConsoleError (str ''User data service: Error in saveRecipe:'')] s)))"

section \<open>Action executor\<close>

text \<open>The names of the six declared tools, in the order of the declaration.\<close>

definition tools :: "jsstring list" where
  "tools = [str ''add_to_shopping_list'', str ''save_recipe'', str ''update_preferences'',
            str ''suggest_substitutions'', str ''guide_recipe_step'', str ''show_reference_images'']"

definition executeAddToShoppingList ::
  "world \<Rightarrow> jsstring \<Rightarrow> item list option \<Rightarrow> state \<Rightarrow> action \<times> state" where
  "executeAddToShoppingList w userId its s =
     (let (success, s1) = addToShoppingList w userId its s
      in case (success, its) of
           (True, Some l) \<Rightarrow>
             (ShoppingListAdded l
                (str ''Added '' @ show_nat (length l) @ str '' items to your shopping list''), s1)
         | _ \<Rightarrow>
             (ActionError (str ''Failed to add to shopping list''),
              emit [ConsoleError (str ''Shopping list error:'')] s1))"

definition executeSaveRecipe ::
  "world \<Rightarrow> int \<Rightarrow> jsstring \<Rightarrow> toolArgs option \<Rightarrow> state \<Rightarrow> action \<times> state" where
  "executeSaveRecipe w now userId recipeData s =
     (let (success, s1) = saveRecipe w now userId recipeData s
      in case (success, recipeData) of
           (True, Some rd) \<Rightarrow>
             (RecipeSaved rd (str ''Saved recipe: '' @ tmpl (title rd)), s1)
         | _ \<Rightarrow>
             (ActionError (str ''Failed to save recipe''),
              emit [ConsoleError (str ''Recipe save error:'')] s1))"

text \<open>The value \<^verbatim>\<open>saveUserPreference\<close> returns is not read.\<close>

definition executeUpdatePreferences ::
  "world \<Rightarrow> int \<Rightarrow> jsstring \<Rightarrow> toolArgs option \<Rightarrow> state \<Rightarrow> action \<times> state" where
  "executeUpdatePreferences w now userId preferenceData s =
     (case preferenceData of
        None \<Rightarrow>
          (ActionError (str ''Failed to update preference''),
           emit [ConsoleError (str ''Preference update error:'')] s)
      | Some pd \<Rightarrow>
          (let (success, s1) =
                 saveUserPreference w now userId (preference_type pd) (preference_value pd)
                   (orElseInt (confidence pd) 3) s
           in (PreferenceUpdated pd
                 (str ''Updated your '' @ tmpl (preference_type pd) @ str '' preference''), s1)))"

definition executeSuggestSubstitutions ::
  "jsstring \<Rightarrow> toolArgs option \<Rightarrow> state \<Rightarrow> action \<times> state" where
  "executeSuggestSubstitutions userId substitutionData s =
     (case substitutionData of
        None \<Rightarrow>
          (ActionError (str ''Failed to suggest substitutions''),
           emit [ConsoleError (str ''Substitution error:'')] s)
      | Some sd \<Rightarrow>
          (SubstitutionSuggested sd
             (str ''Suggested alternatives for '' @ tmpl (original_ingredient sd)), s))"

definition executeGuideRecipeStep ::
  "jsstring \<Rightarrow> toolArgs option \<Rightarrow> state \<Rightarrow> action \<times> state" where
  "executeGuideRecipeStep userId stepData s =
     (case stepData of
        None \<Rightarrow>
          (ActionError (str ''Failed to guide recipe step''),
           emit [ConsoleError (str ''Recipe guide error:'')] s)
      | Some sd \<Rightarrow>
          (RecipeStepGuided sd
             (str ''Step '' @ tmplInt (step_number sd) @ str '': '' @ tmpl (step_description sd)), s))"

definition executeShowReferenceImages ::
  "jsstring \<Rightarrow> toolArgs option \<Rightarrow> state \<Rightarrow> action \<times> state" where
  "executeShowReferenceImages userId imageData s =
     (case imageData of
        None \<Rightarrow>
          (ActionError (str ''Failed to show reference images''),
           emit [ConsoleError (str ''Reference images error:'')] s)
      | Some d \<Rightarrow>
          (ReferenceImages (orElse (query d) (str ''cooking''))
             (orElse (reason d) (str ''User requested visual reference''))
             (Some (str ''Opening reference images for: '' @ orElse (query d) (str ''cooking''))), s))"

text \<open>
  The dispatch on the tool name. \<open>Inl\<close> is an exception that leaves the function: reading
  \<^verbatim>\<open>args.items\<close> when the call has no arguments (the message is that of the V8 engine).
\<close>

definition executeFunctionCall ::
  "world \<Rightarrow> int \<Rightarrow> jsstring \<Rightarrow> functionCall \<Rightarrow> state \<Rightarrow> (jsstring + action) \<times> state" where
  "executeFunctionCall w now userId c s =
     (if call_name c = str ''add_to_shopping_list'' then
        (case call_args c of
           None \<Rightarrow> (Inl (str ''Cannot read properties of undefined (reading '' @ [0x27]
                          @ str ''items'' @ [0x27] @ str '')''), s)
         | Some a \<Rightarrow> (let (r, s1) = executeAddToShoppingList w userId (items a) s in (Inr r, s1)))
      else if call_name c = str ''save_recipe'' then
        (let (r, s1) = executeSaveRecipe w now userId (call_args c) s in (Inr r, s1))
      else if call_name c = str ''update_preferences'' then
        (let (r, s1) = executeUpdatePreferences w now userId (call_args c) s in (Inr r, s1))
      else if call_name c = str ''suggest_substitutions'' then
        (let (r, s1) = executeSuggestSubstitutions userId (call_args c) s in (Inr r, s1))
      else if call_name c = str ''guide_recipe_step'' then
        (let (r, s1) = executeGuideRecipeStep userId (call_args c) s in (Inr r, s1))
      else if call_name c = str ''show_reference_images'' then
        (let (r, s1) = executeShowReferenceImages userId (call_args c) s in (Inr r, s1))
      else (Inr (ActionError (str ''Unknown function'')), s))"

text \<open>
  The loop of \<^verbatim>\<open>processWithAgent\<close> over the tool calls: the result of each call is pushed,
  and so is the message of an exception that a call throws.
\<close>

fun executeCalls ::
  "world \<Rightarrow> int \<Rightarrow> jsstring \<Rightarrow> functionCall list \<Rightarrow> state \<Rightarrow> action list \<times> state" where
  "executeCalls w now userId [] s = ([], s)"
| "executeCalls w now userId (c # cs) s =
     (let (r, s1) = executeFunctionCall w now userId c s;
          (a, s2) = (case r of
                       Inr res \<Rightarrow> (res, s1)
                     | Inl msg \<Rightarrow> (ActionError msg, emit [ConsoleError (str ''Function call error:'')] s1));
          (as, s3) = executeCalls w now userId cs s2
      in (a # as, s3))"

section \<open>Safety guardrails\<close>

text \<open>
  The patterns of the two lists are alternations of literal words joined by \<^verbatim>\<open>.*\<close>, with
  the flag \<^verbatim>\<open>i\<close>. A pattern is the list of its alternatives, an alternative the list of
  its literals. Without the flag \<^verbatim>\<open>u\<close>, a code unit matches an ASCII letter of a pattern
  exactly when it is that letter in either case.
\<close>

type_synonym regex = "jsstring list list"

definition asciiUpper :: "nat \<Rightarrow> nat" where
  "asciiUpper c = (if 0x61 \<le> c \<and> c \<le> 0x7A then c - 0x20 else c)"

fun ciPrefix :: "jsstring \<Rightarrow> jsstring \<Rightarrow> bool" where
  "ciPrefix [] s = True"
| "ciPrefix (p # ps) [] = False"
| "ciPrefix (p # ps) (c # cs) = (asciiUpper p = asciiUpper c \<and> ciPrefix ps cs)"

text \<open>\<^verbatim>\<open>.*\<close> followed by \<open>k\<close>: any run of code units that are not line terminators.\<close>

fun gapThen :: "(jsstring \<Rightarrow> bool) \<Rightarrow> jsstring \<Rightarrow> bool" where
  "gapThen k [] = k []"
| "gapThen k (c # cs) = (k (c # cs) \<or> (\<not> isLineTerminator c \<and> gapThen k cs))"

primrec matchSeq :: "jsstring list \<Rightarrow> jsstring \<Rightarrow> bool" where
  "matchSeq [] = (\<lambda>s. True)"
| "matchSeq (l # ls) =
     (\<lambda>s. ciPrefix l s \<and> (ls = [] \<or> gapThen (matchSeq ls) (drop (length l) s)))"

fun searchSeq :: "jsstring list \<Rightarrow> jsstring \<Rightarrow> bool" where
  "searchSeq ls [] = matchSeq ls []"
| "searchSeq ls (c # cs) = (matchSeq ls (c # cs) \<or> searchSeq ls cs)"

text \<open>\<^verbatim>\<open>pattern.test(input)\<close>.\<close>

definition test :: "regex \<Rightarrow> jsstring \<Rightarrow> bool" where
  "test pattern input = list_ex (\<lambda>alt. searchSeq alt input) pattern"

definition HARMFUL_PATTERNS :: "regex list" where
  "HARMFUL_PATTERNS =
    [[[str ''weapon''], [str ''gun''], [str ''knife'', str ''attack''], [str ''violence''],
      [str ''harm'', str ''person''], [str ''hurt'', str ''someone'']],
     [[str ''poison''], [str ''toxic''], [str ''dangerous'', str ''substance''],
      [str ''harmful'', str ''chemical'']],
     [[str ''suicide''], [str ''self'', str ''harm''], [str ''end'', str ''life''],
      [str ''kill'', str ''myself'']],
     [[str ''dangerous'', str ''activity''], [str ''risky'', str ''behavior'']],
     [[str ''illegal'', str ''drug''], [str ''substance'', str ''abuse''],
      [str ''drug'', str ''recipe'']],
     [[str ''steal''], [str ''theft''], [str ''robbery''], [str ''illegal'', str ''activity'']],
     [[str ''explicit''], [str ''adult'', str ''content''], [str ''inappropriate'']],
     [[str ''hate'', str ''speech''], [str ''discrimination''], [str ''offensive'']],
     [[str ''unsafe'', str ''cooking''], [str ''dangerous'', str ''kitchen''],
      [str ''harmful'', str ''food'']],
     [[str ''contaminated'', str ''food''], [str ''food'', str ''poisoning''],
      [str ''unsafe'', str ''ingredient'']]]"

definition COOKING_SAFETY_PATTERNS :: "regex list" where
  "COOKING_SAFETY_PATTERNS =
    [[[str ''raw'', str ''meat'', str ''without'', str ''cooking'']],
     [[str ''undercooked'', str ''chicken''], [str ''raw'', str ''eggs'', str ''unsafe'']],
     [[str ''cross'', str ''contamination''], [str ''unsafe'', str ''storage'']],
     [[str ''expired'', str ''food''], [str ''moldy'', str ''ingredient'']],
     [[str ''allergen'', str ''without'', str ''warning'']]]"

datatype validation = Safe | Unsafe (v_reason: jsstring) (v_category: jsstring)

definition validateInput :: "jsstring \<Rightarrow> validation" where
  "validateInput input =
     (if input = [] then Unsafe (str ''Invalid input'') (str ''invalid'')
      else if list_ex (\<lambda>pattern. test pattern input) HARMFUL_PATTERNS
        then Unsafe (str ''Contains harmful content'') (str ''harmful'')
      else if list_ex (\<lambda>pattern. test pattern input) COOKING_SAFETY_PATTERNS
        then Unsafe (str ''Unsafe cooking practice'') (str ''unsafe_cooking'')
      else Safe)"

text \<open>The light jailbreak protection; \<open>Some m\<close> is the scripted reply of a refusal.\<close>

definition metaphorPhrases :: "jsstring list" where
  "metaphorPhrases = [str ''in terms of'', str ''represents'', str ''symbolizes'', str ''as if'',
                      str ''like a'']"

definition nonFoodTopics :: "jsstring list" where
  "nonFoodTopics = [str ''politics'', str ''political'', str ''economy'', str ''economic'',
     str ''recession'', str ''depression'', str ''government'', str ''war'', str ''conflict'',
     str ''religion'', str ''religious'', str ''election'', str ''president'', str ''congress'',
     str ''senate'']"

definition metaphorReply :: jsstring where
  "metaphorReply =
     str ''I appreciate the creative metaphor! However, I'' @ [0x27]
     @ str ''m specifically designed to help with actual cooking and recipes. I'' @ [0x27]
     @ str ''d love to help you make a real biryani, pasta, or any other dish though! What would you like to cook today? ''
     @ [0xD83C, 0xDF73]"

definition checkCookingIntent :: "jsstring \<Rightarrow> jsstring option" where
  "checkCookingIntent message =
     (let lowerMessage = toLowerCase message;
          hasMetaphor = some metaphorPhrases (\<lambda>phrase. includes_js lowerMessage phrase);
          hasNonFoodTopic = some nonFoodTopics (\<lambda>topic. includes_js lowerMessage topic)
      in if hasMetaphor \<and> hasNonFoodTopic then Some metaphorReply else None)"

section \<open>Reading user data\<close>

text \<open>
  A query returns its rows in the order of its \<^verbatim>\<open>order\<close> clauses; rows that agree on
  every key keep the order of the table. A query that fails gives the empty list.
\<close>

definition descending :: "('a \<Rightarrow> int) \<Rightarrow> 'a list \<Rightarrow> 'a list" where
  "descending key rows = sort_key (\<lambda>r. - key r) rows"

definition getUserPreferences :: "world \<Rightarrow> jsstring \<Rightarrow> state \<Rightarrow> preferenceRow list \<times> state" where
  "getUserPreferences w userId s =
     (if \<not> supabaseConfigured w then ([], s)
      else if \<not> isValidUUID userId then ([], s)
      else case readOutcome w UserPreferences of
        CallOk \<Rightarrow>
          (descending p_confidence (descending p_last_used
             (filter (\<lambda>r. p_user_id r = userId) (user_preferences (db s)))),
           emit [DbRead UserPreferences userId] s)
      | CallError \<Rightarrow>
          ([], emit [DbRead UserPreferences userId,
                     ConsoleError (str ''User data service: Error fetching preferences:'')] s)
      | CallThrows \<Rightarrow>
          ([], emit [DbRead UserPreferences userId,
                     ConsoleError (str ''User data service: Error in getUserPreferences:'')] s))"

definition unexpired :: "int \<Rightarrow> memoryRow \<Rightarrow> bool" where
  "unexpired now r = (case m_expires_at r of None \<Rightarrow> False | Some t \<Rightarrow> now < t)"

definition getUserMemory :: "world \<Rightarrow> int \<Rightarrow> jsstring \<Rightarrow> state \<Rightarrow> memoryRow list \<times> state" where
  "getUserMemory w now userId s =
     (if \<not> supabaseConfigured w then ([], s)
      else if \<not> isValidUUID userId then ([], s)
      else case readOutcome w ConversationMemory of
        CallOk \<Rightarrow>
          (descending m_confidence (descending m_created_at
             (filter (\<lambda>r. m_user_id r = userId \<and> unexpired now r) (conversation_memory (db s)))),
           emit [DbRead ConversationMemory userId] s)
      | CallError \<Rightarrow>
          ([], emit [DbRead ConversationMemory userId,
                     ConsoleError (str ''User data service: Error fetching memory:'')] s)
      | CallThrows \<Rightarrow>
          ([], emit [DbRead ConversationMemory userId,
                     ConsoleError (str ''User data service: Error in getUserMemory:'')] s))"

definition getUserRecipes :: "world \<Rightarrow> jsstring \<Rightarrow> state \<Rightarrow> recipeRow list \<times> state" where
  "getUserRecipes w userId s =
     (if \<not> supabaseConfigured w then ([], s)
      else if \<not> isValidUUID userId then ([], s)
      else case readOutcome w SavedRecipes of
        CallOk \<Rightarrow>
          (take 10 (descending r_created_at
             (filter (\<lambda>r. r_user_id r = userId) (saved_recipes (db s)))),
           emit [DbRead SavedRecipes userId] s)
      | CallError \<Rightarrow>
          ([], emit [DbRead SavedRecipes userId,
                     ConsoleError (str ''User data service: Error fetching recipes:'')] s)
      | CallThrows \<Rightarrow>
          ([], emit [DbRead SavedRecipes userId,
                     ConsoleError (str ''User data service: Error in getUserRecipes:'')] s))"

section \<open>Nutrition heuristic\<close>

definition cookingKeywords :: "jsstring list" where
  "cookingKeywords = [str ''step'', str ''cook'', str ''fry'', str ''boil'', str ''bake'',
     str ''saut'' @ [0xE9], str ''grill'', str ''roast'', str ''ingredient'', str ''recipe'',
     str ''prepare'', str ''heat'', str ''simmer'', str ''mix'', str ''stir'', str ''first'',
     str ''then'', str ''next'', str ''add'', str ''pour'', str ''chop'', str ''dice'',
     str ''slice'']"

definition recipeNames :: "jsstring list" where
  "recipeNames = [str ''fried rice'', str ''pasta'', str ''curry'', str ''soup'', str ''stew'',
     str ''salad'', str ''sandwich'', str ''stir fry'', str ''roast'', str ''grilled'',
     str ''baked'', str ''pizza'', str ''burger'', str ''taco'']"

text \<open>The open book sign U+1F4D6, as its two surrogate code units.\<close>

definition openBook :: jsstring where
  "openBook = [0xD83D, 0xDCD6]"

definition isQuestion :: "jsstring \<Rightarrow> bool" where
  "isQuestion lowerText =
     (includes_js lowerText (str ''?'') \<or> startsWith lowerText (str ''what '')
      \<or> startsWith lowerText (str ''how ''))"

definition mentionsRecentRecipe :: "histEntry \<Rightarrow> bool" where
  "mentionsRecentRecipe h =
     (case memory_content h of
        Text c \<Rightarrow> c \<noteq> [] \<and>
          (includes_js (toLowerCase c) (str ''fried rice'')
           \<or> includes_js (toLowerCase c) (str ''nutrition'')
           \<or> includes_js (toLowerCase c) openBook)
      | _ \<Rightarrow> False)"

text \<open>\<^verbatim>\<open>xs.slice(-n)\<close>: the last \<open>n\<close> elements.\<close>

definition sliceLast :: "nat \<Rightarrow> 'a list \<Rightarrow> 'a list" where
  "sliceLast n xs = drop (length xs - n) xs"

definition hasRecentRecipe :: "histEntry list \<Rightarrow> bool" where
  "hasRecentRecipe history = some (sliceLast 4 history) mentionsRecentRecipe"

definition hasCookingContent :: "jsstring \<Rightarrow> bool" where
  "hasCookingContent lowerText = some cookingKeywords (\<lambda>word. includes_js lowerText word)"

definition mentionsRecipe :: "jsstring \<Rightarrow> bool" where
  "mentionsRecipe lowerText = some recipeNames (\<lambda>recipe. includes_js lowerText recipe)"

definition isNewRecipeSuggestion :: "jsstring \<Rightarrow> histEntry list \<Rightarrow> bool" where
  "isNewRecipeSuggestion text history =
     (if text = [] then False
      else let lowerText = toLowerCase text in
        if isQuestion lowerText then False
        else if hasRecentRecipe history then False
        else if (hasCookingContent lowerText \<and> length text > 100) \<or> mentionsRecipe lowerText
          then True
        else False)"

section \<open>Context assembler\<close>

definition tmplContent :: "content \<Rightarrow> jsstring" where
  "tmplContent v = (case v of Undefined \<Rightarrow> str ''undefined'' | Null \<Rightarrow> str ''null'' | Text t \<Rightarrow> t)"

definition conversationLine :: "histEntry \<Rightarrow> jsstring" where
  "conversationLine h =
     (if memory_type h = str ''user_message'' then str ''User: '' @ tmplContent (memory_content h)
      else if memory_type h = str ''assistant_response''
        then str ''Assistant: '' @ tmplContent (memory_content h)
      else memory_type h @ str '': '' @ tmplContent (memory_content h))"

definition conversationContext :: "histEntry list \<Rightarrow> jsstring" where
  "conversationContext history = join (map conversationLine (sliceLast 6 history)) [0xA]"

definition recipeTitleLine :: "recipeRow \<Rightarrow> jsstring" where
  "recipeTitleLine r =
     str ''- '' @ tmplNull (r_title r) @ str '' ('' @ tmplNull (r_difficulty r) @ str '', ''
     @ tmplIntNull (r_prep_time r) @ str ''min prep, '' @ tmplIntNull (r_cook_time r)
     @ str ''min cook)''"

definition ingredientLine :: "nat \<Rightarrow> ingredient \<Rightarrow> jsstring" where
  "ingredientLine i ing =
     [0xA] @ show_nat (i + 1) @ str ''. '' @ tmpl (ing_amount ing) @ str '' '' @ tmpl (ing_name ing)
     @ (case ing_notes ing of
          None \<Rightarrow> []
        | Some n \<Rightarrow> if n = [] then [] else str '' ('' @ n @ str '')'')"

definition stepLine :: "rstep \<Rightarrow> jsstring" where
  "stepLine st = [0xA] @ tmplInt (step_step st) @ str ''. '' @ tmpl (step_instruction st)"

definition ingredientsBlock :: "ingredient list option \<Rightarrow> jsstring" where
  "ingredientsBlock v =
     (case v of
        None \<Rightarrow> []
      | Some l \<Rightarrow>
          if l = [] then []
          else [0xA, 0xA] @ str ''INGREDIENTS ('' @ show_nat (length l) @ str '' items):''
               @ concat (map (\<lambda>(i, ing). ingredientLine i ing) (enumerate 0 (take 10 l))))"

definition stepsBlock :: "rstep list option \<Rightarrow> jsstring" where
  "stepsBlock v =
     (case v of
        None \<Rightarrow> []
      | Some l \<Rightarrow>
          if l = [] then []
          else [0xA, 0xA] @ str ''STEPS ('' @ show_nat (length l) @ str '' total):''
               @ concat (map stepLine (take 5 l))
               @ (if length l > 5
                  then [0xA] @ str ''... and '' @ show_nat (length l - 5) @ str '' more steps''
                  else []))"

definition recipeDetails :: "toolArgs \<Rightarrow> jsstring" where
  "recipeDetails recipe =
     [0xA, 0xA] @ str ''RECIPE DETAILS:''
     @ [0xA] @ str ''- Description: '' @ orElse (description recipe) (str ''N/A'')
     @ [0xA] @ str ''- Servings: ''
     @ (case servings recipe of
          None \<Rightarrow> str ''N/A''
        | Some n \<Rightarrow> if n = 0 then str ''N/A'' else show_int n)
     @ [0xA] @ str ''- Difficulty: '' @ orElse (difficulty recipe) (str ''N/A'')
     @ ingredientsBlock (ingredients recipe)
     @ stepsBlock (steps recipe)
     @ [0xA, 0xA, 0x2705] @ str '' This recipe is ready for step-by-step guidance!''"

text \<open>\<open>now\<close> is the reading of the clock when the context is built.\<close>

definition recipeGuidanceContext :: "int \<Rightarrow> recipeRow list \<Rightarrow> jsstring" where
  "recipeGuidanceContext now savedRecipes =
     (case savedRecipes of
        [] \<Rightarrow> []
      | mostRecentRecipe # others \<Rightarrow>
          [0xA, 0xA] @ str ''SAVED RECIPES AVAILABLE FOR GUIDANCE:'' @ [0xA]
          @ join (map recipeTitleLine savedRecipes) [0xA]
          @ (if now - r_created_at mostRecentRecipe < 5 * 60 * 1000
             then [0xA, 0xA, 0x2B50] @ str '' MOST RECENTLY LEARNED RECIPE: '' @ [0x22]
                  @ tmplNull (r_title mostRecentRecipe) @ [0x22]
                  @ (case r_recipe_data mostRecentRecipe of
                       None \<Rightarrow> []
                     | Some recipe \<Rightarrow> recipeDetails recipe)
             else []))"

text \<open>The fixed text of the prompt before the user context.\<close>

definition promptHead :: jsstring where
  "promptHead =
     str ''You are Chef Compadre, a helpful cooking assistant with access to user''
     @ str '' data and tools.'' @ [0xA, 0xA, 0xD83D, 0xDEA8, 0xD83D, 0xDEA8, 0xD83D, 0xDEA8]
     @ str '' CRITICAL MANDATORY INSTRUCTION: '' @ [0xA]
     @ str ''If the user says ANYTHING about wanting to SEE, VIEW, SHOW, or LOOK AT''
     @ str '' something (including '' @ [0x22] @ str ''show me'' @ [0x22] @ str '', ''
     @ [0x22] @ str ''can you show'' @ [0x22] @ str '', '' @ [0x22]
     @ str ''how does it look'' @ [0x22] @ str '', '' @ [0x22] @ str ''how it looks like''
     @ [0x22] @ str '', '' @ [0x22] @ str ''what does it look like'' @ [0x22]
     @ str ''), you MUST IMMEDIATELY call the show_reference_images function. '' @ [0xA]
     @ str ''- Extract the subject from their message or recent conversation (if th''
     @ str ''ey use '' @ [0x22] @ str ''it'' @ [0x22] @ str '', '' @ [0x22] @ str ''that''
     @ [0x22] @ str '', '' @ [0x22] @ str ''this'' @ [0x22]
     @ str '', figure out what they mean from context)'' @ [0xA]
     @ str ''- DO NOT respond with text description - ALWAYS use the tool first to ''
     @ str ''show actual images!'' @ [0xA]
     @ str ''- This is NOT optional - if they want to see something visual, you MUS''
     @ str ''T call the tool.'' @ [0xA, 0xA] @ str ''USER CONTEXT:'' @ [0xA]"

text \<open>The fixed text of the prompt after the current message.\<close>

definition promptInstructions :: jsstring where
  "promptInstructions =
     [0xA, 0xA] @ str ''INSTRUCTIONS:'' @ [0xA]
     @ str ''- **CRITICAL**: Be conversational and maintain context throughout the ''
     @ str ''ENTIRE conversation'' @ [0xA]
     @ str ''- Remember EVERYTHING from the recent conversation history above'' @ [0xA]
     @ str ''- **LEARNED RECIPES**: If a recipe was just learned (see '' @ [0x2B50]
     @ str '' MOST RECENTLY LEARNED section):'' @ [0xA]
     @ str ''  * You have FULL access to all ingredients, steps, times, difficulty'' @ [0xA]
     @ str ''  * This recipe is NOW IN YOUR MEMORY - treat it as if you'' @ [0x27]
     @ str ''ve always known it'' @ [0xA] @ str ''  * When user asks about '' @ [0x22]
     @ str ''the recipe'' @ [0x22] @ str '' or '' @ [0x22] @ str ''that recipe'' @ [0x22]
     @ str '', they mean THIS one'' @ [0xA]
     @ str ''  * Answer ALL questions directly from the recipe details above'' @ [0xA]
     @ str ''  * Don'' @ [0x27] @ str ''t ask '' @ [0x22] @ str ''which recipe?'' @ [0x22]
     @ str '' - you already know!'' @ [0xA]
     @ str ''  * Reference specific ingredients and amounts from the data provided'' @ [0xA]
     @ str ''  * If they say '' @ [0x22] @ str ''guide me'' @ [0x22] @ str '' or '' @ [0x22]
     @ str ''let'' @ [0x27] @ str ''s cook this'' @ [0x22]
     @ str '', use the recipe data above'' @ [0xA, 0xA]
     @ str ''- **SAVED RECIPES** (listed above):'' @ [0xA]
     @ str ''  * These are recipes the user has previously learned/saved'' @ [0xA]
     @ str ''  * They can ask you about any of them'' @ [0xA]
     @ str ''  * Recently learned recipes ('' @ [0x2B50]
     @ str '') have full details available'' @ [0xA]
     @ str ''  * For older recipes, you may only have title/basic info'' @ [0xA, 0xA]
     @ str ''- **Use tools SMARTLY**:'' @ [0xA]
     @ str ''  * show_reference_images: **MANDATORY - ALWAYS CALL THIS TOOL** when ''
     @ str ''user says ANY of these:'' @ [0xA] @ str ''    - '' @ [0x22]
     @ str ''show me [X]'' @ [0x22] @ str '' / '' @ [0x22] @ str ''show [X]'' @ [0x22]
     @ str '' / '' @ [0x22] @ str ''show a picture'' @ [0x22] @ str '' / '' @ [0x22]
     @ str ''can you show me'' @ [0x22, 0xA] @ str ''    - '' @ [0x22]
     @ str ''picture of [X]'' @ [0x22] @ str '' / '' @ [0x22] @ str ''photo of [X]''
     @ [0x22] @ str '' / '' @ [0x22] @ str ''image of [X]'' @ [0x22, 0xA] @ str ''    - ''
     @ [0x22] @ str ''what does [X] look like'' @ [0x22] @ str '' / '' @ [0x22]
     @ str ''how does [X] look'' @ [0x22] @ str '' / '' @ [0x22] @ str ''how it looks like''
     @ [0x22] @ str '' / '' @ [0x22] @ str ''can you show me how it looks'' @ [0x22, 0xA]
     @ str ''    - '' @ [0x22] @ str ''I want to see [X]'' @ [0x22] @ str '' / '' @ [0x22]
     @ str ''can I see [X]'' @ [0x22] @ str '' / '' @ [0x22] @ str ''let me see [X]''
     @ [0x22] @ str '' / '' @ [0x22] @ str ''see how it looks'' @ [0x22, 0xA]
     @ str ''    - '' @ [0x22] @ str ''reference for [X]'' @ [0x22] @ str '' / '' @ [0x22]
     @ str ''reference image'' @ [0x22] @ str '' / '' @ [0x22] @ str ''visual reference''
     @ [0x22, 0xA] @ str ''    - If user uses pronouns ('' @ [0x22] @ str ''it'' @ [0x22]
     @ str '', '' @ [0x22] @ str ''that'' @ [0x22] @ str '', '' @ [0x22] @ str ''this''
     @ [0x22] @ str ''), extract what they'' @ [0x27]
     @ str ''re referring to from conversation context'' @ [0xA]
     @ str ''    - DO NOT just describe visually - ALWAYS CALL THE TOOL so they can''
     @ str '' see actual images!'' @ [0xA] @ str ''    - Example: User says '' @ [0x22]
     @ str ''can you show me how it looks like'' @ [0x22] @ str '' '' @ [0x2192]
     @ str '' Extract '' @ [0x22] @ str ''it'' @ [0x22] @ str '' from context (e.g., ''
     @ [0x22] @ str ''fried rice'' @ [0x22] @ str '') '' @ [0x2192]
     @ str '' Call tool with query='' @ [0x22] @ str ''fried rice'' @ [0x22, 0xA]
     @ str ''  * add_to_shopping_list: When user wants to save ingredients for late''
     @ str ''r'' @ [0xA]
     @ str ''  * save_recipe: ONLY for new recipes (learned recipes are already sav''
     @ str ''ed)'' @ [0xA]
     @ str ''  * update_preferences: When user mentions dietary changes'' @ [0xA]
     @ str ''  * suggest_substitutions: When user asks for alternatives'' @ [0xA]
     @ str ''  * guide_recipe_step: For structured step-by-step cooking'' @ [0xA, 0xA]
     @ str ''- **DON'' @ [0x27] @ str ''T use tools for**:'' @ [0xA]
     @ str ''  * Answering questions (unless it'' @ [0x27]
     @ str ''s asking to SEE something - then use show_reference_images)'' @ [0xA]
     @ str ''  * General conversation'' @ [0xA]
     @ str ''  * Explaining things (unless they want to SEE - then use show_referen''
     @ str ''ce_images)'' @ [0xA] @ str ''  * Just talk naturally!'' @ [0xA, 0xA]
     @ str ''- **Be SMART**:'' @ [0xA] @ str ''  * Continue previous topics naturally''
     @ [0xA] @ str ''  * Don'' @ [0x27] @ str ''t repeat information'' @ [0xA]
     @ str ''  * Reference earlier conversation'' @ [0xA]
     @ str ''  * Act like you remember everything'' @ [0xA]
     @ str ''  * Be concise and helpful'' @ [0xA] @ str ''  * Don'' @ [0x27]
     @ str ''t suggest nutrition analysis - it happens automatically'' @ [0xA, 0xA]
     @ str ''Respond naturally as if you'' @ [0x27]
     @ str ''re having a continuous conversation with full memory and access to all''
     @ str '' learned recipes.''"

definition contextPrompt ::
  "preferenceRow list \<Rightarrow> memoryRow list \<Rightarrow> jsstring \<Rightarrow> jsstring \<Rightarrow> jsstring \<Rightarrow> jsstring" where
  "contextPrompt preferences memory convContext recipeContext message =
     promptHead
     @ join (map (\<lambda>p. str ''- '' @ tmplNull (p_type p) @ str '': '' @ tmplNull (p_value p)) preferences) [0xA]
     @ [0xA]
     @ join (map (\<lambda>m. str ''- '' @ tmplNull (m_content m)) memory) [0xA]
     @ [0xA, 0xA] @ str ''RECENT CONVERSATION:'' @ [0xA]
     @ convContext
     @ [0xA]
     @ recipeContext
     @ [0xA, 0xA] @ str ''CURRENT MESSAGE: '' @ message
     @ promptInstructions"

section \<open>Response interpreter\<close>

text \<open>
  The three places where tool calls can be: the accessor, the property, the parts of the
  first candidate. An exception of the accessor is caught and leaves the list empty.
\<close>

definition extractFunctionCalls :: "modelResponse \<Rightarrow> functionCall list" where
  "extractFunctionCalls r =
     (case functionCalls r of
        AccessorThrows \<Rightarrow> []
      | shape \<Rightarrow>
          (let fc = (case shape of
                       Accessor (Some l) \<Rightarrow> l
                     | Property l \<Rightarrow> l
                     | _ \<Rightarrow> [])
           in if fc = []
              then (case candidateParts r of
                      None \<Rightarrow> fc
                    | Some parts \<Rightarrow> map the (filter (\<lambda>p. p \<noteq> None) parts))
              else fc))"

section \<open>Fallback heuristic\<close>

definition seePhrases :: "jsstring list" where
  "seePhrases = [str ''show me'', str ''show '', str ''picture of'', str ''photo of'',
     str ''image of'', str ''what does'', str ''how does'', str ''how it looks'',
     str ''how it looks like'', str ''how it look'', str ''can i see'', str ''let me see'',
     str ''see how'']"

definition askedToSee :: "jsstring \<Rightarrow> bool" where
  "askedToSee message = some seePhrases (\<lambda>p. includes_js (toLowerCase message) p)"

definition stripPhrase :: "jsstring \<Rightarrow> jsstring \<Rightarrow> jsstring" where
  "stripPhrase q p = (if includes_js q p then trim (last (split q p)) else q)"

text \<open>
  The two anchored patterns of the generic tails. \<open>lit\<close> reads a literal, \<open>alt\<close> the first
  alternative after which the rest of the pattern matches, \<open>opt\<close> an optional literal.
\<close>

definition lit :: "jsstring \<Rightarrow> (jsstring \<Rightarrow> jsstring option) \<Rightarrow> jsstring \<Rightarrow> jsstring option" where
  "lit l k s = (if prefix l s then k (drop (length l) s) else None)"

fun alt :: "jsstring list \<Rightarrow> (jsstring \<Rightarrow> jsstring option) \<Rightarrow> jsstring \<Rightarrow> jsstring option" where
  "alt [] k s = None"
| "alt (a # as) k s = (case lit a k s of Some r \<Rightarrow> Some r | None \<Rightarrow> alt as k s)"

definition opt :: "jsstring \<Rightarrow> jsstring \<Rightarrow> jsstring" where
  "opt l s = (if prefix l s then drop (length l) s else s)"

text \<open>\<^verbatim>\<open>/^how (it|this|that) looks?( like)?\s*/\<close>: the text after the match, if there is one.\<close>

definition matchHowLooks :: "jsstring \<Rightarrow> jsstring option" where
  "matchHowLooks =
     lit (str ''how '') (alt [str ''it'', str ''this'', str ''that'']
       (lit (str '' look'') (\<lambda>s. Some (dropWhile isWhiteSpace (opt (str '' like'') (opt (str ''s'') s))))))"

text \<open>\<^verbatim>\<open>/^(does|do) (it|this|that) look( like)?\s*/\<close>.\<close>

definition matchDoesLook :: "jsstring \<Rightarrow> jsstring option" where
  "matchDoesLook =
     alt [str ''does'', str ''do''] (lit (str '' '') (alt [str ''it'', str ''this'', str ''that'']
       (lit (str '' look'') (\<lambda>s. Some (dropWhile isWhiteSpace (opt (str '' like'') s))))))"

definition removeMatch :: "(jsstring \<Rightarrow> jsstring option) \<Rightarrow> jsstring \<Rightarrow> jsstring" where
  "removeMatch m s = (case m s of None \<Rightarrow> s | Some r \<Rightarrow> r)"

text \<open>\<^verbatim>\<open>split(/[\n,.]/)[0]\<close>: the text before the first newline, comma or full stop.\<close>

definition firstSegment :: "jsstring \<Rightarrow> jsstring" where
  "firstSegment s = takeWhile (\<lambda>c. c \<notin> set [0xA, 0x2C, 0x2E]) s"

definition lastMemoryContent :: "memoryRow list \<Rightarrow> jsstring" where
  "lastMemoryContent memory =
     (case sliceLast 1 memory of
        [] \<Rightarrow> []
      | m # ms \<Rightarrow> (case m_content m of None \<Rightarrow> [] | Some c \<Rightarrow> c))"

definition strippedQuery :: "jsstring \<Rightarrow> jsstring" where
  "strippedQuery message =
     trim (removeMatch matchDoesLook
       (trim (removeMatch matchHowLooks (foldl stripPhrase (toLowerCase message) seePhrases))))"

definition fallbackQuery :: "jsstring \<Rightarrow> memoryRow list \<Rightarrow> jsstring" where
  "fallbackQuery message memory =
     (let q = strippedQuery message
      in if q = []
         then (let seg = trim (firstSegment (lastMemoryContent memory))
               in if seg = [] then str ''biryani'' else seg)
         else q)"

definition heuristicReason :: jsstring where
  "heuristicReason = str ''Heuristic fallback: user explicitly asked to SEE something''"

text \<open>The block that follows the tool calls: it adds to an empty actions list only.\<close>

definition fallbackHeuristic :: "jsstring \<Rightarrow> memoryRow list \<Rightarrow> action list \<Rightarrow> action list" where
  "fallbackHeuristic message memory acts =
     (if length acts = 0 \<and> askedToSee message
      then acts @ [ReferenceImages (fallbackQuery message memory) heuristicReason None]
      else acts)"

section \<open>Nutrition analysis\<close>

text \<open>
  \<open>None\<close> is the exception that \<^verbatim>\<open>analyzeNutrition\<close> logs and throws again. A text that
  does not parse is replaced by the default object. The handler leaves a falsy value out of
  its response.
\<close>

definition analyzeNutrition :: "world \<Rightarrow> jsstring \<Rightarrow> int \<Rightarrow> state \<Rightarrow> nutrition option \<times> state" where
  "analyzeNutrition w recipeText servingsCount s =
     (let s1 = emit [NutritionCall recipeText] s
      in case nutritionModel w recipeText of
           None \<Rightarrow> (None, emit [ConsoleError (str ''Nutrition analysis error:'')] s1)
         | Some nutritionData \<Rightarrow>
             (case parseJson w nutritionData of
                ParsedTruthy \<Rightarrow> (Some (ParsedNutrition nutritionData), s1)
              | ParsedFalsy \<Rightarrow> (Some (FalsyNutrition nutritionData), s1)
              | ParseError \<Rightarrow>
                  (Some (DefaultNutrition servingsCount nutritionData),
                   emit [ConsoleError (str ''Failed to parse nutrition JSON from Gemini:''),
                         ConsoleError (str ''Raw response:'')] s1)))"

definition userExplicitlyAskedForNutrition :: "jsstring \<Rightarrow> bool" where
  "userExplicitlyAskedForNutrition message =
     (message \<noteq> [] \<and>
      (includes_js (toLowerCase message) (str ''nutrition'')
       \<or> includes_js (toLowerCase message) (str ''calories'')
       \<or> includes_js (toLowerCase message) (str ''how healthy'')
       \<or> includes_js (toLowerCase message) (str ''nutritional'')))"

definition nutritionStep ::
  "world \<Rightarrow> jsstring \<Rightarrow> jsstring \<Rightarrow> histEntry list \<Rightarrow> state \<Rightarrow> nutrition option \<times> state" where
  "nutritionStep w message reply history s =
     (if userExplicitlyAskedForNutrition message \<or> isNewRecipeSuggestion reply history
      then (case analyzeNutrition w reply 1 s of
              (None, s1) \<Rightarrow> (None, emit [ConsoleError (str ''Nutrition analysis failed:'')] s1)
            | (Some n, s1) \<Rightarrow> (Some n, s1))
      else (None, s))"

section \<open>The agent\<close>

text \<open>
  What \<^verbatim>\<open>processWithAgent\<close> returns. The object of the guardrail branch has a property
  \<^verbatim>\<open>response\<close> and no \<^verbatim>\<open>reply\<close>.
\<close>

record agentResult =
  ar_reply :: "jsstring option"
  ar_response :: "jsstring option"
  ar_actions :: "action list"
  ar_nutrition :: "nutrition option"

definition agentFailure :: agentResult where
  "agentFailure =
     \<lparr>ar_reply = Some (str ''I'' @ [0x27]
         @ str ''m having trouble processing that right now. Please try again.''),
      ar_response = None, ar_actions = [], ar_nutrition = None\<rparr>"

definition finishReasonErrors :: "modelResponse \<Rightarrow> event list" where
  "finishReasonErrors r =
     (case finishReason r of
        None \<Rightarrow> []
      | Some f \<Rightarrow>
          if f = str ''MAX_TOKENS'' then [ConsoleError (str ''Response truncated due to max tokens'')]
          else if f = str ''SAFETY'' then [ConsoleError (str ''Response blocked by safety filters'')]
          else [])"

definition blocked :: "modelResponse \<Rightarrow> bool" where
  "blocked r = (case blockReason r of None \<Rightarrow> False | Some b \<Rightarrow> b \<noteq> [])"

text \<open>The part of \<^verbatim>\<open>processWithAgent\<close> after the model has answered.\<close>

definition interpretResponse ::
  "world \<Rightarrow> int \<Rightarrow> jsstring \<Rightarrow> jsstring \<Rightarrow> histEntry list \<Rightarrow> memoryRow list \<Rightarrow> modelResponse
     \<Rightarrow> state \<Rightarrow> agentResult \<times> state" where
  "interpretResponse w now userId message history memory response s =
     (if blocked response
      then (agentFailure, emit [ConsoleError (str ''Response blocked:''),
                                ConsoleError (str ''Agent processing error:'')] s)
      else
        (let s1 = emit (finishReasonErrors response) s
         in case responseText response of
              None \<Rightarrow> (agentFailure, emit [ConsoleError (str ''Agent processing error:'')] s1)
            | Some reply \<Rightarrow>
                (let (acts, s2) = executeCalls w now userId (extractFunctionCalls response) s1;
                     acts2 = fallbackHeuristic message memory acts;
                     (nutritionData, s3) = nutritionStep w message reply history s2
                 in (\<lparr>ar_reply = Some reply, ar_response = None, ar_actions = acts2,
                      ar_nutrition = nutritionData\<rparr>, s3))))"

text \<open>
  The part of \<^verbatim>\<open>processWithAgent\<close> that builds the prompt: it reads the preferences, the
  memory and the saved recipes, and returns the prompt with the memory, which the fallback
  heuristic reads later.
\<close>

definition assembleContext ::
  "world \<Rightarrow> int \<Rightarrow> jsstring \<Rightarrow> jsstring \<Rightarrow> histEntry list \<Rightarrow> state
     \<Rightarrow> jsstring \<times> memoryRow list \<times> state" where
  "assembleContext w now userId message history s =
     (let (preferences, s1) = getUserPreferences w userId s;
          (memory, s2) = getUserMemory w now userId s1;
          (savedRecipes, s3) = getUserRecipes w userId s2
      in (contextPrompt preferences memory (conversationContext history)
            (recipeGuidanceContext now savedRecipes) message,
          memory, s3))"

definition processWithAgent ::
  "world \<Rightarrow> int \<Rightarrow> jsstring \<Rightarrow> jsstring \<Rightarrow> histEntry list \<Rightarrow> state \<Rightarrow> agentResult \<times> state" where
  "processWithAgent w now userId message history s =
     (case checkCookingIntent message of
        Some m \<Rightarrow>
          (\<lparr>ar_reply = None, ar_response = Some m, ar_actions = [], ar_nutrition = None\<rparr>, s)
      | None \<Rightarrow>
          (let (prompt, memory, s3) = assembleContext w now userId message history s;
               s4 = emit [ModelCall prompt] s3
           in case generateContent w prompt of
                None \<Rightarrow> (agentFailure, emit [ConsoleError (str ''Agent processing error:'')] s4)
              | Some response \<Rightarrow>
                  interpretResponse w now userId message history memory response s4))"

section \<open>History\<close>

definition memoryHistory :: "state \<Rightarrow> jsstring \<Rightarrow> histEntry list" where
  "memoryHistory s userId = (case conversationHistory s userId of None \<Rightarrow> [] | Some h \<Rightarrow> h)"

definition rowEntry :: "memoryRow \<Rightarrow> histEntry" where
  "rowEntry r =
     \<lparr>memory_type = m_type r,
      memory_content = (case m_content r of None \<Rightarrow> Null | Some c \<Rightarrow> Text c),
      created_at = m_created_at r\<rparr>"

definition getConversationHistory :: "world \<Rightarrow> jsstring \<Rightarrow> state \<Rightarrow> histEntry list \<times> state" where
  "getConversationHistory w userId s =
     (if \<not> supabaseConfigured w then (memoryHistory s userId, s)
      else if \<not> isValidUUID userId then (memoryHistory s userId, s)
      else case readOutcome w ConversationMemory of
        CallOk \<Rightarrow>
          (map rowEntry (take 20 (sort_key m_created_at
             (filter (\<lambda>r. m_user_id r = userId) (conversation_memory (db s))))),
           emit [DbRead ConversationMemory userId] s)
      | CallError \<Rightarrow>
          (memoryHistory s userId,
           emit [DbRead ConversationMemory userId,
                 ConsoleError (str ''Error fetching conversation history:'')] s)
      | CallThrows \<Rightarrow>
          (memoryHistory s userId,
           emit [DbRead ConversationMemory userId,
                 ConsoleError (str ''Error in getConversationHistory:'')] s))"

definition historyRow :: "world \<Rightarrow> int \<Rightarrow> jsstring \<Rightarrow> jsstring \<Rightarrow> content \<Rightarrow> memoryRow" where
  "historyRow w now userId mtype c =
     \<lparr>m_user_id = userId, m_type = mtype,
      m_content = (case c of Text t \<Rightarrow> Some t | _ \<Rightarrow> None),
      m_confidence = defaultConfidence w, m_created_at = now,
      m_expires_at = defaultExpiresAt w now\<rparr>"

definition addToHistory ::
  "world \<Rightarrow> int \<Rightarrow> jsstring \<Rightarrow> jsstring \<Rightarrow> content \<Rightarrow> state \<Rightarrow> state" where
  "addToHistory w now userId userMessage botResponse s =
     (let pushed = memoryHistory s userId
            @ [\<lparr>memory_type = str ''user_message'', memory_content = Text userMessage,
                 created_at = now\<rparr>,
               \<lparr>memory_type = str ''assistant_response'', memory_content = botResponse,
                 created_at = now\<rparr>];
          history = (if length pushed > 20 then drop (length pushed - 20) pushed else pushed);
          s1 = s\<lparr>conversationHistory := (conversationHistory s)(userId \<mapsto> history)\<rparr>
      in if \<not> supabaseConfigured w then s1
         else if \<not> isValidUUID userId then s1
         else case writeOutcome w ConversationMemory of
           CallOk \<Rightarrow>
             emit [DbWrite ConversationMemory userId]
               (s1\<lparr>db := (db s1)\<lparr>conversation_memory := conversation_memory (db s1)
                    @ [historyRow w now userId (str ''user_message'') (Text userMessage),
                       historyRow w now userId (str ''assistant_response'') botResponse]\<rparr>\<rparr>)
         | CallError \<Rightarrow>
             emit [DbWrite ConversationMemory userId,
                   ConsoleError (str ''Error saving conversation history:'')] s1
         | CallThrows \<Rightarrow>
             emit [DbWrite ConversationMemory userId,
                   ConsoleError (str ''Error in addToHistory:'')] s1)"

section \<open>Main handler\<close>

text \<open>
  A request: its method and the two properties of its JSON body (\<open>None\<close>: absent, so the
  default applies). \<open>req_body_parsed\<close> says that the platform has parsed the body, so that
  reading it a second time gives the same object.
\<close>

record request =
  req_method :: jsstring
  req_user_id :: "jsstring option"
  req_text :: "jsstring option"
  req_body_parsed :: bool

text \<open>The JSON bodies of the responses, one constructor per set of properties.\<close>

datatype responseBody =
    ErrorBody jsstring
  | ContentBlocked jsstring jsstring jsstring
  | ReplyOnly jsstring
  | ReplyActions jsstring "action list"
  | ReplyActionsNutrition jsstring "action list" nutrition

type_synonym httpResponse = "nat \<times> responseBody"

definition blockedMessage :: jsstring where
  "blockedMessage = str ''I can only help with cooking and food-related questions. Please ask me about recipes, ingredients, or cooking techniques!''"

definition fallbackReply :: "jsstring \<Rightarrow> jsstring" where
  "fallbackReply text =
     str ''I'' @ [0x27] @ str ''m having trouble connecting to my cooking knowledge right now. ''
     @ (if includes_js (toLowerCase text) (str ''vegetarian'') \<or> includes_js (toLowerCase text) (str ''vegan'')
        then str ''For vegetarian options, try making a delicious veggie stir-fry with your favorite vegetables, or a hearty bean and vegetable soup!''
        else if includes_js (toLowerCase text) (str ''bread'')
        then str ''For bread-based recipes, you could make garlic bread, bruschetta, or a simple grilled cheese sandwich!''
        else if includes_js (toLowerCase text) (str ''healthy'')
        then str ''For healthy cooking, focus on fresh vegetables, lean proteins, and whole grains. Try steaming or roasting your ingredients!''
        else str ''Try asking me about specific ingredients you have, or what you'' @ [0x27]
             @ str ''d like to cook today!'')"

text \<open>
  The handler. Reading \<^verbatim>\<open>result.reply.substring\<close> throws when the agent returned no reply;
  the handler's \<^verbatim>\<open>catch\<close> then answers with the fallback reply, after the history has
  been written.
\<close>

definition handler :: "world \<Rightarrow> int \<Rightarrow> request \<Rightarrow> state \<Rightarrow> httpResponse \<times> state" where
  "handler w now req s =
     (if req_method req \<noteq> str ''POST'' then ((405, ErrorBody (str ''Method not allowed'')), s)
      else if \<not> apiKeyConfigured w
        then ((500, ErrorBody (str ''Gemini API key not configured'')), s)
      else
        (let user_id = (case req_user_id req of None \<Rightarrow> str ''web'' | Some u \<Rightarrow> u);
             text = (case req_text req of None \<Rightarrow> [] | Some t \<Rightarrow> t)
         in if trim text = [] then ((200, ReplyOnly []), s)
            else case validateInput text of
              Unsafe why cat \<Rightarrow>
                ((400, ContentBlocked (str ''Content blocked'') blockedMessage why), s)
            | Safe \<Rightarrow>
                (let (history, s1) = getConversationHistory w user_id s;
                     (result, s2) = processWithAgent w now user_id text history s1;
                     s3 = addToHistory w now user_id text
                            (case ar_reply result of None \<Rightarrow> Undefined | Some r \<Rightarrow> Text r) s2
                 in case ar_reply result of
                      None \<Rightarrow>
                        ((200, ReplyOnly (fallbackReply (if req_body_parsed req then text else []))),
                         emit [ConsoleError (str ''Conversation error:'')] s3)
                    | Some reply \<Rightarrow>
                        (case ar_nutrition result of
                           None \<Rightarrow> ((200, ReplyActions reply (ar_actions result)), s3)
                         | Some n \<Rightarrow>
                             if truthy n
                             then ((200, ReplyActionsNutrition reply (ar_actions result) n), s3)
                             else ((200, ReplyActions reply (ar_actions result)), s3)))))"

text \<open>
  The process: it starts with an empty history map and handles requests one after the
  other, each in the world as it is at that time.
\<close>

definition initialState :: "datastore \<Rightarrow> state" where
  "initialState d = \<lparr>conversationHistory = Map.empty, db = d, trace = []\<rparr>"

fun runTurns :: "(world \<times> int \<times> request) list \<Rightarrow> state \<Rightarrow> state" where
  "runTurns [] s = s"
| "runTurns ((w, now, req) # rest) s = runTurns rest (snd (handler w now req s))"

section \<open>Scenarios\<close>

text \<open>Values used to run the program on concrete inputs.\<close>

definition emptyDatastore :: datastore where
  "emptyDatastore = \<lparr>conversation_memory = [], user_preferences = [], shopping_lists = [],
                      saved_recipes = []\<rparr>"

definition noArgs :: toolArgs where
  "noArgs = \<lparr>items = None, title = None, description = None, ingredients = None, steps = None,
     tags = None, difficulty = None, prep_time = None, cook_time = None, servings = None,
     preference_type = None, preference_value = None, confidence = None,
     original_ingredient = None, alternatives = None, step_number = None,
     step_description = None, query = None, reason = None\<rparr>"

definition answer :: "jsstring \<Rightarrow> functionCall list \<Rightarrow> modelResponse" where
  "answer t calls = \<lparr>blockReason = None, finishReason = Some (str ''STOP''),
     responseText = Some t, functionCalls = Accessor (Some calls), candidateParts = Some []\<rparr>"

definition scriptedWorld :: "outcome \<Rightarrow> modelResponse \<Rightarrow> world" where
  "scriptedWorld wr r = \<lparr>supabaseConfigured = True, apiKeyConfigured = True,
     writeOutcome = (\<lambda>t. wr), readOutcome = (\<lambda>t. CallOk),
     generateContent = (\<lambda>p. Some r), nutritionModel = (\<lambda>t. Some (str ''{}'')),
     parseJson = (\<lambda>t. ParsedTruthy), defaultConfidence = 3, defaultExpiresAt = (\<lambda>now. None)\<rparr>"

definition registeredUser :: jsstring where
  "registeredUser = str ''123e4567-e89b-42d3-a456-426614174000''"

definition guestUser :: jsstring where
  "guestUser = str ''demo-user''"

definition post :: "jsstring \<Rightarrow> jsstring \<Rightarrow> request" where
  "post u t = \<lparr>req_method = str ''POST'', req_user_id = Some u, req_text = Some t,
              req_body_parsed = True\<rparr>"

definition friedRiceHistory :: "histEntry list" where
  "friedRiceHistory =
     [\<lparr>memory_type = str ''user_message'', memory_content = Text (str ''How do I make fried rice''),
       created_at = 0\<rparr>,
      \<lparr>memory_type = str ''assistant_response'',
       memory_content = Text (str ''Heat oil, add rice and stir.''), created_at = 0\<rparr>]"

definition pastaHistory :: "histEntry list" where
  "pastaHistory =
     [\<lparr>memory_type = str ''user_message'', memory_content = Text (str ''I love pasta''),
       created_at = 0\<rparr>,
      \<lparr>memory_type = str ''assistant_response'',
       memory_content = Text (str ''Pasta with garlic and oil is quick.''), created_at = 0\<rparr>]"

text \<open>
  The conversation history that a state retains: the in-process map and the rows of the
  table \<^verbatim>\<open>conversation_memory\<close>.
\<close>

definition retainedHistory :: "state \<Rightarrow> (jsstring \<Rightarrow> histEntry list option) \<times> memoryRow list" where
  "retainedHistory s = (conversationHistory s, conversation_memory (db s))"

definition storedTurns :: "jsstring \<Rightarrow> state \<Rightarrow> memoryRow list" where
  "storedTurns u s = filter (\<lambda>r. m_user_id r = u) (conversation_memory (db s))"

text \<open>
  A datastore holding two memory facts of the registered user, of equal confidence, the
  second one more recent.
\<close>

definition twoFacts :: datastore where
  "twoFacts = emptyDatastore\<lparr>conversation_memory :=
     [\<lparr>m_user_id = registeredUser, m_type = str ''recipe'', m_content = Some (str ''paneer tikka''),
       m_confidence = 3, m_created_at = 100, m_expires_at = Some 1000\<rparr>,
      \<lparr>m_user_id = registeredUser, m_type = str ''recipe'', m_content = Some (str ''masala dosa''),
       m_confidence = 3, m_created_at = 200, m_expires_at = Some 1000\<rparr>]\<rparr>"

text \<open>A recipe in the form the URL learner stores, with two ingredients and six steps.\<close>

definition dalRecipe :: toolArgs where
  "dalRecipe = noArgs\<lparr>title := Some (str ''Dal tadka''),
     ingredients := Some [IngObj (Some (str ''1 cup'')) (Some (str ''red lentils'')) None,
                          IngObj (Some (str ''2 tbsp'')) (Some (str ''ghee'')) (Some (str ''or oil''))],
     steps := Some [StepObj (Some 1) (Some (str ''Rinse the lentils'')),
                    StepObj (Some 2) (Some (str ''Boil until soft'')),
                    StepObj (Some 3) (Some (str ''Heat the ghee'')),
                    StepObj (Some 4) (Some (str ''Fry cumin and garlic'')),
                    StepObj (Some 5) (Some (str ''Pour over the lentils'')),
                    StepObj (Some 6) (Some (str ''Garnish with coriander''))]\<rparr>"

text \<open>A model answer that asks for one preference update.\<close>

definition dietUpdate :: modelResponse where
  "dietUpdate = answer (str ''Noted.'')
     [\<lparr>call_name = str ''update_preferences'',
       call_args = Some (noArgs\<lparr>preference_type := Some (str ''diet''),
                                 preference_value := Some (str ''vegetarian'')\<rparr>)\<rparr>]"

section \<open>Evaluation\<close>

text \<open>The equations that evaluate the string functions on a literal.\<close>

lemmas js_eval = str_def toLowerCase_def encode_def encodePoint_def lowerPoint_def startsWith_def some_def isWhiteSpace_def
  trim_def trimStart_def isLineTerminator_def asciiUpper_def sliceLast_def

declare splitFrom.simps [simp del] show_nat.simps [simp del] bitLength.simps [simp del]

section \<open>Properties of the action executor\<close>

lemma executeFunctionCall_unknown:
  "call_name c \<notin> set tools \<Longrightarrow>
   executeFunctionCall w now userId c s = (Inr (ActionError (str ''Unknown function'')), s)"
  by (simp add: executeFunctionCall_def tools_def)

lemma executeCalls_length: "length (fst (executeCalls w now userId cs s)) = length cs"
  by (induction cs arbitrary: s) (simp_all add: split_beta Let_def)

lemma executeCalls_unknown:
  "i < length cs \<Longrightarrow> call_name (cs ! i) \<notin> set tools \<Longrightarrow>
   fst (executeCalls w now userId cs s) ! i = ActionError (str ''Unknown function'')"
proof (induction cs arbitrary: i s)
  case Nil
  then show ?case by simp
next
  case (Cons c cs)
  show ?case
  proof (cases i)
    case 0
    with Cons.prems have "call_name c \<notin> set tools" by simp
    then show ?thesis using 0
      by (simp add: executeFunctionCall_unknown split_beta Let_def)
  next
    case (Suc j)
    with Cons.prems have "j < length cs" "call_name (cs ! j) \<notin> set tools" by simp_all
    then show ?thesis using Suc Cons.IH
      by (simp add: split_beta Let_def)
  qed
qed

lemma interpretResponse_calls:
  assumes "\<not> blocked r" and "responseText r = Some reply" and "extractFunctionCalls r \<noteq> []"
  shows "ar_actions (fst (interpretResponse w now u msg hist mem r s))
         = fst (executeCalls w now u (extractFunctionCalls r) (emit (finishReasonErrors r) s))"
proof -
  have "length (fst (executeCalls w now u (extractFunctionCalls r) (emit (finishReasonErrors r) s))) \<noteq> 0"
    using assms(3) by (simp add: executeCalls_length)
  then show ?thesis using assms(1,2)
    by (simp add: interpretResponse_def Let_def split_beta fallbackHeuristic_def)
qed

text \<open>
  C9. A tool call whose name is not one of the six declared tools is not dropped: the
  dispatch returns the entry \<^verbatim>\<open>{error: 'Unknown function'}\<close> without touching the state, the
  actions list has one entry per tool call, and the entry at the position of that call is
  this error.
\<close>

theorem unknown_tool_error_entry:
  assumes "\<not> blocked r" and "responseText r = Some reply"
    and "i < length (extractFunctionCalls r)"
    and "call_name (extractFunctionCalls r ! i) \<notin> set tools"
  shows "executeFunctionCall w now u (extractFunctionCalls r ! i) s
           = (Inr (ActionError (str ''Unknown function'')), s)
       \<and> length (ar_actions (fst (interpretResponse w now u msg hist mem r s)))
           = length (extractFunctionCalls r)
       \<and> ar_actions (fst (interpretResponse w now u msg hist mem r s)) ! i
           = ActionError (str ''Unknown function'')"
proof -
  have ne: "extractFunctionCalls r \<noteq> []" using assms(3) by auto
  show ?thesis
    using assms(3,4)
    by (simp add: interpretResponse_calls[OF assms(1,2) ne] executeFunctionCall_unknown
        executeCalls_length executeCalls_unknown)
qed

theorem unknown_tool_error_entry_witness:
  "ar_actions (fst (interpretResponse (scriptedWorld CallOk (answer (str ''ok'') []))
      0 (str ''demo-user'') (str ''hello'') [] []
      (answer (str ''ok'') [\<lparr>call_name = str ''order_pizza'', call_args = None\<rparr>])
      (initialState emptyDatastore))) ! 0
   = ActionError (str ''Unknown function'')"
  using unknown_tool_error_entry[of "answer (str ''ok'') [\<lparr>call_name = str ''order_pizza'', call_args = None\<rparr>]"
      "str ''ok''" 0 "scriptedWorld CallOk (answer (str ''ok'') [])" 0 "str ''demo-user''"
      "initialState emptyDatastore" "str ''hello''" "[]" "[]"]
  by (simp add: blocked_def answer_def extractFunctionCalls_def tools_def str_def)

lemma tool_names_distinct:
  "str ''save_recipe'' \<noteq> str ''add_to_shopping_list''"
  "str ''update_preferences'' \<noteq> str ''add_to_shopping_list''"
  "str ''update_preferences'' \<noteq> str ''save_recipe''"
  by (simp_all add: str_def)

text \<open>
  C8. When the datastore write fails (an error is returned or the call throws), the failure
  is logged; the preference handler still answers \<^verbatim>\<open>preference_updated\<close> although
  \<^verbatim>\<open>saveUserPreference\<close> returned false, while the recipe and the shopping-list handlers
  answer with an error entry.
\<close>

theorem write_failure_reporting:
  assumes "supabaseConfigured w"
  shows "(writeOutcome w UserPreferences \<noteq> CallOk \<longrightarrow>
            fst (saveUserPreference w now u (preference_type pd) (preference_value pd)
                   (orElseInt (confidence pd) 3) s) = False
          \<and> fst (executeFunctionCall w now u
                   \<lparr>call_name = str ''update_preferences'', call_args = Some pd\<rparr> s)
              = Inr (PreferenceUpdated pd
                      (str ''Updated your '' @ tmpl (preference_type pd) @ str '' preference''))
          \<and> (\<exists>m. trace (snd (executeFunctionCall w now u
                   \<lparr>call_name = str ''update_preferences'', call_args = Some pd\<rparr> s))
                 = trace s @ [DbWrite UserPreferences u, ConsoleError m]))
       \<and> (writeOutcome w SavedRecipes \<noteq> CallOk \<longrightarrow>
            fst (executeFunctionCall w now u
                   \<lparr>call_name = str ''save_recipe'', call_args = Some rd\<rparr> s)
              = Inr (ActionError (str ''Failed to save recipe''))
          \<and> (\<exists>m. trace (snd (executeFunctionCall w now u
                   \<lparr>call_name = str ''save_recipe'', call_args = Some rd\<rparr> s))
                 = trace s @ [DbWrite SavedRecipes u, ConsoleError m,
                              ConsoleError (str ''Recipe save error:'')]))
       \<and> (writeOutcome w ShoppingLists \<noteq> CallOk \<longrightarrow>
            fst (executeFunctionCall w now u
                   \<lparr>call_name = str ''add_to_shopping_list'',
                    call_args = Some (sl\<lparr>items := Some l\<rparr>)\<rparr> s)
              = Inr (ActionError (str ''Failed to add to shopping list''))
          \<and> (\<exists>m. trace (snd (executeFunctionCall w now u
                   \<lparr>call_name = str ''add_to_shopping_list'',
                    call_args = Some (sl\<lparr>items := Some l\<rparr>)\<rparr> s))
                 = trace s @ [DbWrite ShoppingLists u, ConsoleError m,
                              ConsoleError (str ''Shopping list error:'')]))"
proof (intro conjI impI)
  assume f: "writeOutcome w UserPreferences \<noteq> CallOk"
  show "fst (saveUserPreference w now u (preference_type pd) (preference_value pd)
                   (orElseInt (confidence pd) 3) s) = False"
    using f assms by (cases "writeOutcome w UserPreferences") (simp_all add: saveUserPreference_def)
  show "fst (executeFunctionCall w now u
                   \<lparr>call_name = str ''update_preferences'', call_args = Some pd\<rparr> s)
              = Inr (PreferenceUpdated pd
                      (str ''Updated your '' @ tmpl (preference_type pd) @ str '' preference''))"
    by (simp add: executeFunctionCall_def tool_names_distinct executeUpdatePreferences_def
        split_beta Let_def)
  show "\<exists>m. trace (snd (executeFunctionCall w now u
                   \<lparr>call_name = str ''update_preferences'', call_args = Some pd\<rparr> s))
                 = trace s @ [DbWrite UserPreferences u, ConsoleError m]"
    using f assms
    by (cases "writeOutcome w UserPreferences")
       (simp_all add: executeFunctionCall_def tool_names_distinct executeUpdatePreferences_def
          saveUserPreference_def emit_def split_beta Let_def)
next
  assume f: "writeOutcome w SavedRecipes \<noteq> CallOk"
  show "fst (executeFunctionCall w now u
                   \<lparr>call_name = str ''save_recipe'', call_args = Some rd\<rparr> s)
              = Inr (ActionError (str ''Failed to save recipe''))"
    using f assms
    by (cases "writeOutcome w SavedRecipes")
       (simp_all add: executeFunctionCall_def tool_names_distinct executeSaveRecipe_def
          saveRecipe_def split_beta Let_def)
  show "\<exists>m. trace (snd (executeFunctionCall w now u
                   \<lparr>call_name = str ''save_recipe'', call_args = Some rd\<rparr> s))
                 = trace s @ [DbWrite SavedRecipes u, ConsoleError m,
                              ConsoleError (str ''Recipe save error:'')]"
    using f assms
    by (cases "writeOutcome w SavedRecipes")
       (simp_all add: executeFunctionCall_def tool_names_distinct executeSaveRecipe_def
          saveRecipe_def emit_def split_beta Let_def)
next
  assume f: "writeOutcome w ShoppingLists \<noteq> CallOk"
  show "fst (executeFunctionCall w now u
                   \<lparr>call_name = str ''add_to_shopping_list'',
                    call_args = Some (sl\<lparr>items := Some l\<rparr>)\<rparr> s)
              = Inr (ActionError (str ''Failed to add to shopping list''))"
    using f assms
    by (cases "writeOutcome w ShoppingLists")
       (simp_all add: executeFunctionCall_def executeAddToShoppingList_def
          addToShoppingList_def split_beta Let_def)
  show "\<exists>m. trace (snd (executeFunctionCall w now u
                   \<lparr>call_name = str ''add_to_shopping_list'',
                    call_args = Some (sl\<lparr>items := Some l\<rparr>)\<rparr> s))
                 = trace s @ [DbWrite ShoppingLists u, ConsoleError m,
                              ConsoleError (str ''Shopping list error:'')]"
    using f assms
    by (cases "writeOutcome w ShoppingLists")
       (simp_all add: executeFunctionCall_def executeAddToShoppingList_def
          addToShoppingList_def emit_def split_beta Let_def)
qed

theorem write_failure_reporting_witness:
  "fst (executeFunctionCall (scriptedWorld CallError (answer [] [])) 0 (str ''demo-user'')
         \<lparr>call_name = str ''update_preferences'',
          call_args = Some (noArgs\<lparr>preference_type := Some (str ''diet''),
                                    preference_value := Some (str ''vegan'')\<rparr>)\<rparr>
         (initialState emptyDatastore))
     = Inr (PreferenceUpdated (noArgs\<lparr>preference_type := Some (str ''diet''),
                                      preference_value := Some (str ''vegan'')\<rparr>)
              (str ''Updated your diet preference''))
   \<and> fst (executeFunctionCall (scriptedWorld CallError (answer [] [])) 0 (str ''demo-user'')
         \<lparr>call_name = str ''save_recipe'', call_args = Some (noArgs\<lparr>title := Some (str ''Dal'')\<rparr>)\<rparr>
         (initialState emptyDatastore))
     = Inr (ActionError (str ''Failed to save recipe''))"
  using write_failure_reporting[where w = "scriptedWorld CallError (answer [] [])" and now = 0
      and u = "str ''demo-user''" and s = "initialState emptyDatastore"
      and pd = "noArgs\<lparr>preference_type := Some (str ''diet''), preference_value := Some (str ''vegan'')\<rparr>"
      and rd = "noArgs\<lparr>title := Some (str ''Dal'')\<rparr>" and sl = noArgs and l = "[]"]
  by (simp add: scriptedWorld_def noArgs_def tmpl_def str_def)

section \<open>Properties of the handler\<close>

lemma trim_empty_iff: "trim s = [] \<longleftrightarrow> list_all isWhiteSpace s"
proof
  assume "list_all isWhiteSpace s"
  then show "trim s = []"
    by (auto simp: trim_def list_all_iff dest: set_dropWhileD)
next
  assume "trim s = []"
  then have allw: "\<forall>x\<in>set (dropWhile isWhiteSpace s). isWhiteSpace x"
    by (simp add: trim_def)
  have "dropWhile isWhiteSpace s = []"
  proof (rule ccontr)
    assume ne: "dropWhile isWhiteSpace s \<noteq> []"
    then have "\<not> isWhiteSpace (hd (dropWhile isWhiteSpace s))" by (rule hd_dropWhile)
    moreover have "hd (dropWhile isWhiteSpace s) \<in> set (dropWhile isWhiteSpace s)"
      using ne by (rule hd_in_set)
    ultimately show False using allw by blast
  qed
  then show "list_all isWhiteSpace s"
    by (simp add: list_all_iff)
qed

text \<open>
  C10. A POST request whose text is absent, empty or made of white space only is answered
  with status 200 and the body \<^verbatim>\<open>{reply: ''}\<close>, which has neither actions nor nutrition;
  the state is left as it was: nothing is validated, no model is called, no history is
  written. (The handler reads the body only when the model key is configured.)
\<close>

theorem empty_text_short_circuit:
  assumes "req_method req = str ''POST''" and "apiKeyConfigured w"
    and "req_text req = None \<or> (\<exists>t. req_text req = Some t \<and> list_all isWhiteSpace t)"
  shows "fst (handler w now req s) = (200, ReplyOnly [])
       \<and> snd (handler w now req s) = s
       \<and> trace (snd (handler w now req s)) = trace s
       \<and> conversationHistory (snd (handler w now req s)) = conversationHistory s"
proof -
  have "trim (case req_text req of None \<Rightarrow> [] | Some t \<Rightarrow> t) = []"
    using assms(3) by (auto simp: trim_empty_iff)
  then have "handler w now req s = ((200, ReplyOnly []), s)"
    using assms(1,2) by (simp add: handler_def Let_def)
  then show ?thesis by simp
qed

theorem empty_text_short_circuit_witness:
  "handler (scriptedWorld CallOk (answer (str ''hi'') [])) 0
     \<lparr>req_method = str ''POST'', req_user_id = None, req_text = Some [0x20, 0x9, 0xA],
      req_body_parsed = True\<rparr> (initialState emptyDatastore)
   = ((200, ReplyOnly []), initialState emptyDatastore)"
  using empty_text_short_circuit[where w = "scriptedWorld CallOk (answer (str ''hi'') [])"
      and now = 0 and s = "initialState emptyDatastore"
      and req = "\<lparr>req_method = str ''POST'', req_user_id = None, req_text = Some [0x20, 0x9, 0xA],
                   req_body_parsed = True\<rparr>"]
  by (simp add: scriptedWorld_def isWhiteSpace_def prod_eq_iff)

lemma asciiUpper_whitespace: "isWhiteSpace c \<Longrightarrow> asciiUpper c = c"
  by (auto simp: isWhiteSpace_def asciiUpper_def)

lemma ciPrefix_not_whitespace:
  assumes "ciPrefix l s" and "l \<noteq> []" and "\<not> isWhiteSpace (asciiUpper (hd l))"
  shows "s \<noteq> [] \<and> \<not> isWhiteSpace (hd s)"
proof (cases l)
  case Nil
  with assms(2) show ?thesis by simp
next
  case (Cons p ps)
  show ?thesis
  proof (cases s)
    case Nil
    with Cons assms(1) show ?thesis by simp
  next
    case (Cons c cs)
    with \<open>l = p # ps\<close> assms(1) have eq: "asciiUpper p = asciiUpper c" by simp
    have "\<not> isWhiteSpace c"
    proof
      assume "isWhiteSpace c"
      then have "asciiUpper c = c" by (rule asciiUpper_whitespace)
      with eq \<open>isWhiteSpace c\<close> assms(3) \<open>l = p # ps\<close> show False by simp
    qed
    with Cons show ?thesis by simp
  qed
qed

lemma searchSeq_not_whitespace:
  assumes "l \<noteq> []" and "\<not> isWhiteSpace (asciiUpper (hd l))"
  shows "searchSeq (l # ls) s \<Longrightarrow> \<not> list_all isWhiteSpace s"
proof (induction s)
  case Nil
  then show ?case using ciPrefix_not_whitespace[OF _ assms, of "[]"] by auto
next
  case (Cons c cs)
  then show ?case using ciPrefix_not_whitespace[OF _ assms, of "c # cs"] by auto
qed

lemma test_not_whitespace:
  assumes "\<forall>a\<in>set pattern. a \<noteq> [] \<and> hd a \<noteq> [] \<and> \<not> isWhiteSpace (asciiUpper (hd (hd a)))"
    and "test pattern s"
  shows "\<not> list_all isWhiteSpace s"
proof -
  from assms(2) obtain a where a: "a \<in> set pattern" "searchSeq a s"
    by (auto simp: test_def list_ex_iff)
  with assms(1) obtain l ls where "a = l # ls" "l \<noteq> []" "\<not> isWhiteSpace (asciiUpper (hd l))"
    by (cases a) auto
  with a(2) show ?thesis using searchSeq_not_whitespace by blast
qed

lemma patterns_start_with_letters:
  "\<forall>pattern\<in>set (HARMFUL_PATTERNS @ COOKING_SAFETY_PATTERNS). \<forall>a\<in>set pattern.
      a \<noteq> [] \<and> hd a \<noteq> [] \<and> \<not> isWhiteSpace (asciiUpper (hd (hd a)))"
  by (simp add: HARMFUL_PATTERNS_def COOKING_SAFETY_PATTERNS_def str_def isWhiteSpace_def
      asciiUpper_def)

lemma banned_not_blank:
  assumes "list_ex (\<lambda>pattern. test pattern text) (HARMFUL_PATTERNS @ COOKING_SAFETY_PATTERNS)"
  shows "trim text \<noteq> []"
proof -
  from assms obtain pattern where p: "pattern \<in> set (HARMFUL_PATTERNS @ COOKING_SAFETY_PATTERNS)"
    "test pattern text" by (auto simp: list_ex_iff)
  then have "\<not> list_all isWhiteSpace text"
    using patterns_start_with_letters test_not_whitespace by blast
  then show ?thesis by (simp add: trim_empty_iff)
qed

text \<open>
  C2. A text that matches a harmful-content pattern or a cooking-safety pattern never
  reaches the model: whatever the request and the configuration, the handler leaves the
  state as it was, so no call to the model is issued; \<^verbatim>\<open>validateInput\<close> answers unsafe with
  one of the two fixed reasons, and a request that reaches the gate (a POST, with the model
  key configured) is answered with status 400 and that reason.
\<close>

theorem banned_input_rejected_before_model:
  assumes "req_text req = Some inp"
    and "list_ex (\<lambda>pattern. test pattern inp) (HARMFUL_PATTERNS @ COOKING_SAFETY_PATTERNS)"
  shows "snd (handler w now req s) = s
       \<and> filter isModelCall (trace (snd (handler w now req s))) = filter isModelCall (trace s)
       \<and> (\<exists>why cat. validateInput inp = Unsafe why cat
             \<and> (why = str ''Contains harmful content'' \<or> why = str ''Unsafe cooking practice'')
             \<and> (req_method req = str ''POST'' \<and> apiKeyConfigured w \<longrightarrow>
                  fst (handler w now req s)
                    = (400, ContentBlocked (str ''Content blocked'') blockedMessage why)))"
proof -
  have nb: "trim inp \<noteq> []" using assms(2) by (rule banned_not_blank)
  then have "inp \<noteq> []" by (auto simp: trim_def)
  with assms(2) have v: "validateInput inp = Unsafe (str ''Contains harmful content'') (str ''harmful'')
       \<or> validateInput inp = Unsafe (str ''Unsafe cooking practice'') (str ''unsafe_cooking'')"
    by (auto simp: validateInput_def)
  then obtain why cat where u: "validateInput inp = Unsafe why cat"
    and r: "why = str ''Contains harmful content'' \<or> why = str ''Unsafe cooking practice''"
    by blast
  have st: "snd (handler w now req s) = s"
    using assms(1) nb u by (simp add: handler_def Let_def)
  have rs: "req_method req = str ''POST'' \<and> apiKeyConfigured w \<longrightarrow>
        fst (handler w now req s) = (400, ContentBlocked (str ''Content blocked'') blockedMessage why)"
    using assms(1) nb u by (simp add: handler_def Let_def)
  show ?thesis using st u r rs by simp
qed

lemma weapon_is_banned:
  "list_ex (\<lambda>pattern. test pattern (str ''How do I make a WEAPON at home''))
     (HARMFUL_PATTERNS @ COOKING_SAFETY_PATTERNS)"
  by code_simp

theorem banned_input_rejected_before_model_witness:
  "handler (scriptedWorld CallOk (answer (str ''hi'') [])) 0
     \<lparr>req_method = str ''POST'', req_user_id = None,
      req_text = Some (str ''How do I make a WEAPON at home''), req_body_parsed = True\<rparr>
     (initialState emptyDatastore)
   = ((400, ContentBlocked (str ''Content blocked'') blockedMessage (str ''Contains harmful content'')),
      initialState emptyDatastore)"
proof -
  have v: "validateInput (str ''How do I make a WEAPON at home'')
           = Unsafe (str ''Contains harmful content'') (str ''harmful'')"
    by code_simp
  have ne: "str ''Contains harmful content'' \<noteq> str ''Unsafe cooking practice''"
    by (simp add: str_def)
  show ?thesis
    using banned_input_rejected_before_model[where w = "scriptedWorld CallOk (answer (str ''hi'') [])"
      and now = 0 and s = "initialState emptyDatastore"
      and inp = "str ''How do I make a WEAPON at home''"
      and req = "\<lparr>req_method = str ''POST'', req_user_id = None,
                   req_text = Some (str ''How do I make a WEAPON at home''), req_body_parsed = True\<rparr>",
      OF _ weapon_is_banned] v ne
    by (simp add: scriptedWorld_def prod_eq_iff)
qed

section \<open>Properties of the nutrition heuristic\<close>

lemma includes_js_iff: "includes_js s p \<longleftrightarrow> (\<exists>a b. s = a @ p @ b)"
proof (induction s)
  case Nil
  then show ?case by auto
next
  case (Cons c cs)
  show ?case
  proof
    assume "includes_js (c # cs) p"
    then consider "prefix p (c # cs)" | "includes_js cs p" by auto
    then show "\<exists>a b. c # cs = a @ p @ b"
    proof cases
      case 1
      then obtain b where "c # cs = p @ b" by (auto simp: prefix_def)
      then have "c # cs = [] @ p @ b" by simp
      then show ?thesis by blast
    next
      case 2
      with Cons.IH obtain a b where "cs = a @ p @ b" by blast
      then have "c # cs = (c # a) @ p @ b" by simp
      then show ?thesis by blast
    qed
  next
    assume "\<exists>a b. c # cs = a @ p @ b"
    then obtain a b where ab: "c # cs = a @ p @ b" by blast
    show "includes_js (c # cs) p"
    proof (cases a)
      case Nil
      with ab have "prefix p (c # cs)" by (simp add: prefix_def)
      then show ?thesis by simp
    next
      case (Cons x xs)
      with ab have "cs = xs @ p @ b" by simp
      with Cons.IH have "includes_js cs p" by blast
      then show ?thesis by simp
    qed
  qed
qed

lemma includes_js_single: "includes_js s [c] \<longleftrightarrow> c \<in> set s"
  by (induction s) auto

lemma decode_question: "0x3F \<in> set (decode s) \<longleftrightarrow> 0x3F \<in> set s"
  by (induction s rule: decode.induct) auto

lemma lookupLower_image:
  "lookupLower rs p = Some q \<Longrightarrow> list_all (\<lambda>(lo, hi, st, t). 0x61 \<le> t) rs \<Longrightarrow> 0x61 \<le> q"
  by (induction rs p rule: lookupLower.induct) (auto split: if_splits)

lemma lowerRanges_images: "list_all (\<lambda>(lo, hi, st, t). 0x61 \<le> t) lowerRanges"
  by (simp add: lowerRanges_def)

lemma lowerPoint_question: "lowerPoint p = 0x3F \<longleftrightarrow> p = 0x3F"
proof (cases "p < 0x80")
  case True
  then show ?thesis by (auto simp: lowerPoint_def)
next
  case False
  show ?thesis
  proof (cases "lookupLower lowerRanges p")
    case None
    with False show ?thesis by (simp add: lowerPoint_def)
  next
    case (Some q)
    then have "0x61 \<le> q" using lookupLower_image lowerRanges_images by blast
    with False Some show ?thesis by (auto simp: lowerPoint_def)
  qed
qed

lemma lowerFrom_question: "0x3F \<in> set (lowerFrom seen ps) \<longleftrightarrow> 0x3F \<in> set ps"
  by (induction ps arbitrary: seen) (auto simp: lowerPoint_question)

lemma encode_question: "0x3F \<in> set (encode ps) \<longleftrightarrow> 0x3F \<in> set ps"
  by (induction ps) (auto simp: encode_def encodePoint_def)

lemma toLowerCase_question: "0x3F \<in> set (toLowerCase s) \<longleftrightarrow> 0x3F \<in> set s"
  by (simp add: toLowerCase_def encode_question lowerFrom_question decode_question)

lemma question_mark: "str ''?'' = [0x3F]"
  by (simp add: str_def)

lemma isQuestion_iff:
  "isQuestion (toLowerCase s) \<longleftrightarrow>
     includes_js s (str ''?'') \<or> startsWith (toLowerCase s) (str ''what '')
     \<or> startsWith (toLowerCase s) (str ''how '')"
  by (simp add: isQuestion_def question_mark includes_js_single toLowerCase_question)

lemma no_keyword_in_empty:
  "\<not> hasCookingContent []" "\<not> mentionsRecipe []"
  by (simp_all add: hasCookingContent_def mentionsRecipe_def some_def cookingKeywords_def
      recipeNames_def str_def)

text \<open>
  C6, as the code has it. The classifier of new recipe suggestions answers no when the reply
  contains a question mark or starts, in any letter case, with \<^verbatim>\<open>what \<close> or \<^verbatim>\<open>how \<close>; it
  answers no when one of the last four history entries contains \<^verbatim>\<open>fried rice\<close>,
  \<^verbatim>\<open>nutrition\<close> or the open book sign, whatever the reply is; otherwise it answers yes
  exactly when the reply has a cooking keyword and is longer than 100 code units, or names
  a known dish.
\<close>

theorem new_recipe_classifier:
  "(includes_js reply (str ''?'') \<longrightarrow> \<not> isNewRecipeSuggestion reply history)
 \<and> (startsWith (toLowerCase reply) (str ''what '') \<or> startsWith (toLowerCase reply) (str ''how '')
      \<longrightarrow> \<not> isNewRecipeSuggestion reply history)
 \<and> (hasRecentRecipe history \<longrightarrow> \<not> isNewRecipeSuggestion reply history)
 \<and> (\<not> includes_js reply (str ''?'') \<and> \<not> startsWith (toLowerCase reply) (str ''what '')
      \<and> \<not> startsWith (toLowerCase reply) (str ''how '') \<and> \<not> hasRecentRecipe history
      \<longrightarrow> isNewRecipeSuggestion reply history
           = ((hasCookingContent (toLowerCase reply) \<and> length reply > 100)
              \<or> mentionsRecipe (toLowerCase reply)))"
proof (cases "reply = []")
  case True
  then show ?thesis
    by (simp add: isNewRecipeSuggestion_def toLowerCase_def encode_def no_keyword_in_empty)
next
  case False
  then show ?thesis
    using isQuestion_iff[of reply]
    by (auto simp: isNewRecipeSuggestion_def Let_def)
qed

lemma fried_rice_reply:
  "\<not> includes_js (str ''Tonight we make Fried Rice.'') (str ''?'')
   \<and> \<not> startsWith (toLowerCase (str ''Tonight we make Fried Rice.'')) (str ''what '')
   \<and> \<not> startsWith (toLowerCase (str ''Tonight we make Fried Rice.'')) (str ''how '')
   \<and> \<not> hasRecentRecipe []
   \<and> mentionsRecipe (toLowerCase (str ''Tonight we make Fried Rice.''))"
  by (simp add: js_eval hasRecentRecipe_def mentionsRecipe_def recipeNames_def)

theorem new_recipe_classifier_witness:
  "isNewRecipeSuggestion (str ''Tonight we make Fried Rice.'') []"
  using new_recipe_classifier[where reply = "str ''Tonight we make Fried Rice.''" and history = "[]"]
    fried_rice_reply
  by blast

text \<open>
  C6 as stated fails: the reply starts with the interrogative word \<^verbatim>\<open>Why\<close> and shares the
  dish \<^verbatim>\<open>pasta\<close> with the two history entries, and the classifier answers yes.
\<close>

theorem interrogative_overlap_counterexample:
  "startsWith (toLowerCase (str ''Why not try pasta again.'')) (str ''why '')
   \<and> includes_js (toLowerCase (str ''Why not try pasta again.'')) (str ''pasta'')
   \<and> list_all (\<lambda>h. case memory_content h of
                      Text c \<Rightarrow> includes_js (toLowerCase c) (str ''pasta'') | _ \<Rightarrow> False)
        (sliceLast 4 pastaHistory)
   \<and> isNewRecipeSuggestion (str ''Why not try pasta again.'') pastaHistory"
  by (simp add: isNewRecipeSuggestion_def isQuestion_def hasRecentRecipe_def
      mentionsRecentRecipe_def mentionsRecipe_def recipeNames_def pastaHistory_def openBook_def
      js_eval)

section \<open>Properties of the nutrition gating\<close>

lemma trace_emit [simp]: "trace (emit es s) = trace s @ es"
  by (simp add: emit_def)

lemma db_emit [simp]: "db (emit es s) = db s"
  by (simp add: emit_def)

lemma conversationHistory_emit [simp]: "conversationHistory (emit es s) = conversationHistory s"
  by (simp add: emit_def)

lemma countEvents_emit: "countEvents P (emit es s) = countEvents P s + length (filter P es)"
  by (simp add: countEvents_def)

lemma countEvents_trace: "trace s' = trace s \<Longrightarrow> countEvents P s' = countEvents P s"
  by (simp add: countEvents_def)

lemma nutrition_getUserPreferences:
  "countEvents isNutritionCall (snd (getUserPreferences w u s)) = countEvents isNutritionCall s"
  by (simp add: getUserPreferences_def countEvents_def isNutritionCall_def split: outcome.splits)

lemma nutrition_getUserMemory:
  "countEvents isNutritionCall (snd (getUserMemory w now u s)) = countEvents isNutritionCall s"
  by (simp add: getUserMemory_def countEvents_def isNutritionCall_def split: outcome.splits)

lemma nutrition_getUserRecipes:
  "countEvents isNutritionCall (snd (getUserRecipes w u s)) = countEvents isNutritionCall s"
  by (simp add: getUserRecipes_def countEvents_def isNutritionCall_def split: outcome.splits)

lemma nutrition_getConversationHistory:
  "countEvents isNutritionCall (snd (getConversationHistory w u s)) = countEvents isNutritionCall s"
  by (simp add: getConversationHistory_def countEvents_def isNutritionCall_def split: outcome.splits)

lemma nutrition_addToHistory:
  "countEvents isNutritionCall (addToHistory w now u m b s) = countEvents isNutritionCall s"
  by (simp add: addToHistory_def Let_def countEvents_def isNutritionCall_def split: outcome.splits)

lemma nutrition_saveUserPreference:
  "countEvents isNutritionCall (snd (saveUserPreference w now u a b c s)) = countEvents isNutritionCall s"
  by (simp add: saveUserPreference_def countEvents_def isNutritionCall_def split: outcome.splits)

lemma nutrition_addToShoppingList:
  "countEvents isNutritionCall (snd (addToShoppingList w u its s)) = countEvents isNutritionCall s"
  by (simp add: addToShoppingList_def countEvents_def isNutritionCall_def
      split: outcome.splits option.splits)

lemma nutrition_saveRecipe:
  "countEvents isNutritionCall (snd (saveRecipe w now u rd s)) = countEvents isNutritionCall s"
  by (simp add: saveRecipe_def countEvents_def isNutritionCall_def
      split: outcome.splits option.splits)

lemma nutrition_emit_errors:
  "countEvents isNutritionCall (emit [ConsoleError m] s) = countEvents isNutritionCall s"
  by (simp add: countEvents_def isNutritionCall_def)

lemma nutrition_executeAddToShoppingList:
  "countEvents isNutritionCall (snd (executeAddToShoppingList w u its s)) = countEvents isNutritionCall s"
proof -
  obtain ok s1 where r: "addToShoppingList w u its s = (ok, s1)" by fastforce
  then have "countEvents isNutritionCall s1 = countEvents isNutritionCall s"
    using nutrition_addToShoppingList[of w u its s] by simp
  then show ?thesis using r
    by (simp add: executeAddToShoppingList_def nutrition_emit_errors
        split: option.splits bool.splits)
qed

lemma nutrition_executeSaveRecipe:
  "countEvents isNutritionCall (snd (executeSaveRecipe w now u rd s)) = countEvents isNutritionCall s"
proof -
  obtain ok s1 where r: "saveRecipe w now u rd s = (ok, s1)" by fastforce
  then have "countEvents isNutritionCall s1 = countEvents isNutritionCall s"
    using nutrition_saveRecipe[of w now u rd s] by simp
  then show ?thesis using r
    by (simp add: executeSaveRecipe_def nutrition_emit_errors split: option.splits bool.splits)
qed

lemma nutrition_executeUpdatePreferences:
  "countEvents isNutritionCall (snd (executeUpdatePreferences w now u pd s)) = countEvents isNutritionCall s"
  by (simp add: executeUpdatePreferences_def nutrition_emit_errors nutrition_saveUserPreference
      split_beta split: option.splits)

lemma nutrition_executeOthers:
  "countEvents isNutritionCall (snd (executeSuggestSubstitutions u a s)) = countEvents isNutritionCall s"
  "countEvents isNutritionCall (snd (executeGuideRecipeStep u a s)) = countEvents isNutritionCall s"
  "countEvents isNutritionCall (snd (executeShowReferenceImages u a s)) = countEvents isNutritionCall s"
  by (simp_all add: executeSuggestSubstitutions_def executeGuideRecipeStep_def
      executeShowReferenceImages_def nutrition_emit_errors split: option.splits)

lemma nutrition_executeFunctionCall:
  "countEvents isNutritionCall (snd (executeFunctionCall w now u c s)) = countEvents isNutritionCall s"
  by (simp add: executeFunctionCall_def split_beta nutrition_executeAddToShoppingList
      nutrition_executeSaveRecipe nutrition_executeUpdatePreferences nutrition_executeOthers
      split: option.splits)

lemma nutrition_executeCalls:
  "countEvents isNutritionCall (snd (executeCalls w now u cs s)) = countEvents isNutritionCall s"
proof (induction cs arbitrary: s)
  case Nil
  then show ?case by simp
next
  case (Cons c cs)
  obtain r s1 where r: "executeFunctionCall w now u c s = (r, s1)" by fastforce
  then have s1: "countEvents isNutritionCall s1 = countEvents isNutritionCall s"
    using nutrition_executeFunctionCall[of w now u c s] by simp
  show ?case using r s1 Cons.IH
    by (cases r) (simp_all add: split_beta nutrition_emit_errors)
qed

lemma nutrition_analyzeNutrition:
  "countEvents isNutritionCall (snd (analyzeNutrition w t n s)) = countEvents isNutritionCall s + 1"
  by (simp add: analyzeNutrition_def Let_def countEvents_def isNutritionCall_def
      split: option.splits parseResult.splits)

lemma nutrition_nutritionStep:
  "countEvents isNutritionCall (snd (nutritionStep w message reply history s))
     = countEvents isNutritionCall s
       + (if userExplicitlyAskedForNutrition message \<or> isNewRecipeSuggestion reply history
          then 1 else 0)"
proof -
  obtain n s1 where r: "analyzeNutrition w reply 1 s = (n, s1)" by fastforce
  then have "countEvents isNutritionCall s1 = countEvents isNutritionCall s + 1"
    using nutrition_analyzeNutrition[of w reply 1 s] by simp
  then show ?thesis using r
    by (simp add: nutritionStep_def nutrition_emit_errors split: option.splits)
qed

lemma nutrition_emit_list:
  "countEvents isNutritionCall (emit (finishReasonErrors r) s) = countEvents isNutritionCall s"
  "countEvents isNutritionCall (emit [ConsoleError a, ConsoleError b] s) = countEvents isNutritionCall s"
  "countEvents isNutritionCall (emit [ModelCall p] s) = countEvents isNutritionCall s"
  by (simp_all add: countEvents_def isNutritionCall_def finishReasonErrors_def split: option.splits)

lemma nutrition_interpretResponse:
  "countEvents isNutritionCall (snd (interpretResponse w now u message history memory r s))
     = countEvents isNutritionCall s
       + (if \<not> blocked r \<and> responseText r \<noteq> None
             \<and> (userExplicitlyAskedForNutrition message
                 \<or> isNewRecipeSuggestion (the (responseText r)) history)
          then 1 else 0)"
  by (simp add: interpretResponse_def Let_def split_beta nutrition_nutritionStep
      nutrition_executeCalls nutrition_emit_list nutrition_emit_errors split: option.splits)

lemma nutrition_processWithAgent_le:
  "countEvents isNutritionCall (snd (processWithAgent w now u message history s))
     \<le> countEvents isNutritionCall s + 1"
  by (simp add: processWithAgent_def assembleContext_def Let_def split_beta nutrition_interpretResponse
      nutrition_getUserPreferences nutrition_getUserMemory nutrition_getUserRecipes
      nutrition_emit_list nutrition_emit_errors split: option.splits)

lemma nutrition_processWithAgent_continuation:
  assumes "hasRecentRecipe history" and "\<not> userExplicitlyAskedForNutrition message"
  shows "countEvents isNutritionCall (snd (processWithAgent w now u message history s))
     = countEvents isNutritionCall s"
proof -
  have "\<not> isNewRecipeSuggestion reply history" for reply
    using assms(1) by (simp add: isNewRecipeSuggestion_def Let_def)
  then show ?thesis using assms(2)
    by (simp add: processWithAgent_def assembleContext_def Let_def split_beta nutrition_interpretResponse
      nutrition_getUserPreferences nutrition_getUserMemory nutrition_getUserRecipes
      nutrition_emit_list nutrition_emit_errors split: option.splits)
qed

lemma nutrition_handler_le:
  "countEvents isNutritionCall (snd (handler w now req s)) \<le> countEvents isNutritionCall s + 1"
proof -
  have step: "countEvents isNutritionCall
        (snd (processWithAgent w now u t (fst (getConversationHistory w u s))
               (snd (getConversationHistory w u s))))
      \<le> Suc (countEvents isNutritionCall s)" for u t
    using nutrition_processWithAgent_le[of w now u t "fst (getConversationHistory w u s)"
        "snd (getConversationHistory w u s)"]
      nutrition_getConversationHistory[of w u s]
    by simp
  show ?thesis
    by (simp add: handler_def Let_def split_beta nutrition_addToHistory nutrition_emit_errors step
        split: option.splits validation.splits)
qed

lemma continuation_no_nutrition:
  assumes "hasRecentRecipe history" and "\<not> userExplicitlyAskedForNutrition message"
  shows "ar_nutrition (fst (processWithAgent w now u message history s)) = None"
proof -
  have "\<not> isNewRecipeSuggestion reply history" for reply
    using assms(1) by (simp add: isNewRecipeSuggestion_def Let_def)
  then show ?thesis using assms(2)
    by (simp add: processWithAgent_def assembleContext_def interpretResponse_def nutritionStep_def agentFailure_def
        Let_def split_beta split: option.splits)
qed

text \<open>
  C5, as the code has it. A turn issues the nutrition analysis at most once. When one of the
  last four history entries marks a recipe under discussion and the user's message does not
  itself ask for nutrition (it contains none of \<^verbatim>\<open>nutrition\<close>, \<^verbatim>\<open>calories\<close>, \<^verbatim>\<open>how healthy\<close>
  and \<^verbatim>\<open>nutritional\<close>), the analysis is not issued and the result carries no nutrition.
\<close>

theorem nutrition_at_most_once:
  "countEvents isNutritionCall (snd (handler w now req s)) \<le> countEvents isNutritionCall s + 1
 \<and> countEvents isNutritionCall (snd (processWithAgent w now u message history s))
       \<le> countEvents isNutritionCall s + 1
 \<and> (hasRecentRecipe history \<and> \<not> userExplicitlyAskedForNutrition message \<longrightarrow>
       countEvents isNutritionCall (snd (processWithAgent w now u message history s))
         = countEvents isNutritionCall s
       \<and> ar_nutrition (fst (processWithAgent w now u message history s)) = None)"
  using nutrition_handler_le[of w now req s]
    nutrition_processWithAgent_le[of w now u message history s]
  by (simp add: nutrition_processWithAgent_continuation continuation_no_nutrition)

lemma friedRiceHistory_recent: "hasRecentRecipe friedRiceHistory"
  by (simp add: hasRecentRecipe_def friedRiceHistory_def mentionsRecentRecipe_def js_eval)

lemma not_asked: "\<not> userExplicitlyAskedForNutrition (str ''and then'')"
  by (simp add: userExplicitlyAskedForNutrition_def js_eval)

lemma countEvents_initialState: "countEvents P (initialState d) = 0"
  by (simp add: countEvents_def initialState_def)

theorem nutrition_at_most_once_witness:
  "countEvents isNutritionCall
     (snd (processWithAgent (scriptedWorld CallOk (answer (str ''Then add the soy sauce and stir.'') []))
        0 (str ''demo-user'') (str ''and then'') friedRiceHistory (initialState emptyDatastore)))
   = 0"
  using nutrition_at_most_once[where w = "scriptedWorld CallOk (answer (str ''Then add the soy sauce and stir.'') [])"
      and now = 0 and u = "str ''demo-user''" and message = "str ''and then''"
      and history = friedRiceHistory and s = "initialState emptyDatastore"]
    friedRiceHistory_recent not_asked
  by (simp add: countEvents_initialState)

lemma asked: "userExplicitlyAskedForNutrition (str ''How many calories is that'')"
  by (simp add: userExplicitlyAskedForNutrition_def js_eval)

lemma no_metaphor: "checkCookingIntent (str ''How many calories is that'') = None"
  by (simp add: checkCookingIntent_def metaphorPhrases_def nonFoodTopics_def js_eval)

text \<open>
  C5 as stated fails: with fried rice in the recent history, a message that asks for the
  calories makes the turn issue the nutrition analysis.
\<close>

theorem nutrition_continuation_counterexample:
  "hasRecentRecipe friedRiceHistory
   \<and> countEvents isNutritionCall
     (snd (processWithAgent (scriptedWorld CallOk (answer (str ''About 400 kcal a serving.'') []))
        0 (str ''demo-user'') (str ''How many calories is that'') friedRiceHistory
        (initialState emptyDatastore)))
     = 1"
  using friedRiceHistory_recent asked no_metaphor
  by (simp add: processWithAgent_def assembleContext_def Let_def split_beta nutrition_interpretResponse
      nutrition_getUserPreferences nutrition_getUserMemory nutrition_getUserRecipes
      nutrition_emit_list scriptedWorld_def answer_def blocked_def countEvents_initialState)

section \<open>Properties of the history\<close>

lemma retained_emit [simp]: "retainedHistory (emit es s) = retainedHistory s"
  by (simp add: retainedHistory_def)

lemma retained_reads:
  "retainedHistory (snd (getUserPreferences w u s)) = retainedHistory s"
  "retainedHistory (snd (getUserMemory w now u s)) = retainedHistory s"
  "retainedHistory (snd (getUserRecipes w u s)) = retainedHistory s"
  "retainedHistory (snd (getConversationHistory w u s)) = retainedHistory s"
  by (simp_all add: getUserPreferences_def getUserMemory_def getUserRecipes_def
      getConversationHistory_def split: outcome.splits)

lemma retained_saveUserPreference:
  "retainedHistory (snd (saveUserPreference w now u a b c s)) = retainedHistory s"
  by (simp add: saveUserPreference_def split: outcome.splits) (simp add: retainedHistory_def emit_def)

lemma retained_addToShoppingList:
  "retainedHistory (snd (addToShoppingList w u its s)) = retainedHistory s"
  by (simp add: addToShoppingList_def split: outcome.splits option.splits)
     (simp add: retainedHistory_def emit_def)

lemma retained_saveRecipe:
  "retainedHistory (snd (saveRecipe w now u rd s)) = retainedHistory s"
  by (simp add: saveRecipe_def split: outcome.splits option.splits)
     (simp add: retainedHistory_def emit_def)

lemma retained_executeAddToShoppingList:
  "retainedHistory (snd (executeAddToShoppingList w u its s)) = retainedHistory s"
proof -
  obtain ok s1 where r: "addToShoppingList w u its s = (ok, s1)" by fastforce
  then have "retainedHistory s1 = retainedHistory s"
    using retained_addToShoppingList[of w u its s] by simp
  then show ?thesis using r
    by (simp add: executeAddToShoppingList_def split: option.splits bool.splits)
qed

lemma retained_executeSaveRecipe:
  "retainedHistory (snd (executeSaveRecipe w now u rd s)) = retainedHistory s"
proof -
  obtain ok s1 where r: "saveRecipe w now u rd s = (ok, s1)" by fastforce
  then have "retainedHistory s1 = retainedHistory s"
    using retained_saveRecipe[of w now u rd s] by simp
  then show ?thesis using r
    by (simp add: executeSaveRecipe_def split: option.splits bool.splits)
qed

lemma retained_executors:
  "retainedHistory (snd (executeUpdatePreferences w now u a s)) = retainedHistory s"
  "retainedHistory (snd (executeSuggestSubstitutions u a s)) = retainedHistory s"
  "retainedHistory (snd (executeGuideRecipeStep u a s)) = retainedHistory s"
  "retainedHistory (snd (executeShowReferenceImages u a s)) = retainedHistory s"
  by (simp_all add: executeUpdatePreferences_def executeSuggestSubstitutions_def
      executeGuideRecipeStep_def executeShowReferenceImages_def retained_saveUserPreference
      split_beta split: option.splits)

lemma retained_executeFunctionCall:
  "retainedHistory (snd (executeFunctionCall w now u c s)) = retainedHistory s"
  by (simp add: executeFunctionCall_def split_beta retained_executeAddToShoppingList
      retained_executeSaveRecipe retained_executors split: option.splits)

lemma retained_executeCalls:
  "retainedHistory (snd (executeCalls w now u cs s)) = retainedHistory s"
proof (induction cs arbitrary: s)
  case Nil
  then show ?case by simp
next
  case (Cons c cs)
  obtain r s1 where r: "executeFunctionCall w now u c s = (r, s1)" by fastforce
  then have s1: "retainedHistory s1 = retainedHistory s"
    using retained_executeFunctionCall[of w now u c s] by simp
  show ?case using r s1 Cons.IH
    by (cases r) (simp_all add: split_beta)
qed

lemma retained_nutritionStep:
  "retainedHistory (snd (nutritionStep w message reply history s)) = retainedHistory s"
  by (simp add: nutritionStep_def analyzeNutrition_def Let_def
      split: option.splits parseResult.splits)

lemma retained_interpretResponse:
  "retainedHistory (snd (interpretResponse w now u message history memory r s)) = retainedHistory s"
  by (simp add: interpretResponse_def Let_def split_beta retained_nutritionStep
      retained_executeCalls split: option.splits)

lemma retained_processWithAgent:
  "retainedHistory (snd (processWithAgent w now u message history s)) = retainedHistory s"
  by (simp add: processWithAgent_def assembleContext_def Let_def split_beta retained_interpretResponse
      retained_reads split: option.splits)

lemma registeredUser_valid: "isValidUUID registeredUser"
  by (simp add: isValidUUID_def registeredUser_def hexDigit_def str_def upt_rec)

lemma guestUser_invalid: "\<not> isValidUUID guestUser"
  by (simp add: isValidUUID_def guestUser_def str_def)

lemma memoryHistory_addToHistory:
  "memoryHistory (addToHistory w now u m b s) v =
     (if v = u
      then (let pushed = memoryHistory s u
                  @ [\<lparr>memory_type = str ''user_message'', memory_content = Text m, created_at = now\<rparr>,
                     \<lparr>memory_type = str ''assistant_response'', memory_content = b, created_at = now\<rparr>]
            in if length pushed > 20 then drop (length pushed - 20) pushed else pushed)
      else memoryHistory s v)"
  by (simp add: addToHistory_def memoryHistory_def Let_def split: outcome.splits)

lemma addToHistory_bounded:
  assumes "\<And>v. length (memoryHistory s v) \<le> 20"
  shows "length (memoryHistory (addToHistory w now u m b s) v) \<le> 20"
  using assms[of v] by (simp add: memoryHistory_addToHistory Let_def)

lemma memoryHistory_retained:
  "retainedHistory s' = retainedHistory s \<Longrightarrow> memoryHistory s' v = memoryHistory s v"
  by (simp add: retainedHistory_def memoryHistory_def)

lemma handler_bounded:
  assumes "\<And>v. length (memoryHistory s v) \<le> 20"
  shows "length (memoryHistory (snd (handler w now req s)) v) \<le> 20"
proof -
  have mid: "length (memoryHistory (snd (processWithAgent w now u t
                 (fst (getConversationHistory w u s)) (snd (getConversationHistory w u s)))) x) \<le> 20"
    for u t x
    using assms[of x]
      memoryHistory_retained[OF retained_processWithAgent[of w now u t
          "fst (getConversationHistory w u s)" "snd (getConversationHistory w u s)"], of x]
      memoryHistory_retained[OF retained_reads(4)[of w u s], of x]
    by simp
  have em: "memoryHistory (emit es x) y = memoryHistory x y" for es x y
    by (simp add: memoryHistory_def)
  show ?thesis
    using assms[of v]
    by (simp add: handler_def Let_def split_beta em addToHistory_bounded[OF mid]
        split: option.splits validation.splits)
qed

lemma runTurns_bounded:
  assumes "\<And>v. length (memoryHistory s v) \<le> 20"
  shows "length (memoryHistory (runTurns turns s) v) \<le> 20"
  using assms
proof (induction turns arbitrary: s v)
  case Nil
  then show ?case by simp
next
  case (Cons turn turns)
  obtain w now req where t: "turn = (w, now, req)" by (cases turn) auto
  have "length (memoryHistory (snd (handler w now req s)) x) \<le> 20" for x
    using handler_bounded[of s] Cons.prems by blast
  then show ?case using Cons.IH[of "snd (handler w now req s)" v] t by simp
qed

lemma getConversationHistory_bounded:
  assumes "\<And>v. length (memoryHistory s v) \<le> 20"
  shows "length (fst (getConversationHistory w u s)) \<le> 20"
  using assms[of u] by (simp add: getConversationHistory_def split: outcome.splits)

text \<open>
  C3, as the code has it. After any sequence of requests, whatever the world at each of them,
  the history that the in-process map holds for a user has at most 20 entries, and so has the
  history that a turn reads back, from the map or from the datastore.
\<close>

theorem history_bounded:
  "length (memoryHistory (runTurns turns (initialState d)) u) \<le> 20
 \<and> length (fst (getConversationHistory w u (runTurns turns (initialState d)))) \<le> 20"
proof -
  have init: "length (memoryHistory (initialState d) v) \<le> 20" for v
    by (simp add: memoryHistory_def initialState_def)
  have "length (memoryHistory (runTurns turns (initialState d)) v) \<le> 20" for v
    using runTurns_bounded[of "initialState d"] init by blast
  then show ?thesis using getConversationHistory_bounded by blast
qed

lemma storedTurns_retained:
  "retainedHistory s' = retainedHistory s \<Longrightarrow> storedTurns u s' = storedTurns u s"
  by (simp add: retainedHistory_def storedTurns_def)

lemma storedTurns_emit [simp]: "storedTurns u (emit es s) = storedTurns u s"
  by (simp add: storedTurns_def)

lemma addToHistory_stores:
  assumes "supabaseConfigured w" and "isValidUUID u" and "writeOutcome w ConversationMemory = CallOk"
  shows "length (storedTurns u (addToHistory w now u m b s)) = length (storedTurns u s) + 2"
  using assms by (simp add: addToHistory_def Let_def storedTurns_def historyRow_def)

lemma handler_stores_turn:
  assumes "apiKeyConfigured w" and "supabaseConfigured w"
    and "writeOutcome w ConversationMemory = CallOk" and "isValidUUID u"
    and "trim t \<noteq> []" and "validateInput t = Safe"
  shows "length (storedTurns u (snd (handler w now (post u t) s))) = length (storedTurns u s) + 2"
proof -
  have mid: "storedTurns u (snd (processWithAgent w now u t
                 (fst (getConversationHistory w u s)) (snd (getConversationHistory w u s))))
             = storedTurns u s"
    using storedTurns_retained[OF retained_processWithAgent[of w now u t
          "fst (getConversationHistory w u s)" "snd (getConversationHistory w u s)"], of u]
      storedTurns_retained[OF retained_reads(4)[of w u s], of u]
    by simp
  show ?thesis
    using assms(1,5,6)
    by (simp add: handler_def post_def Let_def split_beta mid
        addToHistory_stores[OF assms(2,4,3)] split: option.splits)
qed

lemma repeated_turns_store:
  assumes "apiKeyConfigured w" and "supabaseConfigured w"
    and "writeOutcome w ConversationMemory = CallOk" and "isValidUUID u"
    and "trim t \<noteq> []" and "validateInput t = Safe"
  shows "length (storedTurns u (runTurns (replicate n (w, now, post u t)) s))
         = length (storedTurns u s) + 2 * n"
proof (induction n arbitrary: s)
  case 0
  then show ?case by simp
next
  case (Suc n)
  show ?case
    using Suc.IH[of "snd (handler w now (post u t) s)"] handler_stores_turn[OF assms, of now s]
    by simp
qed

lemma hello_not_blank: "trim (str ''hello'') \<noteq> []"
  by (simp add: js_eval)

lemma hello_is_safe: "validateInput (str ''hello'') = Safe"
  by code_simp

text \<open>
  C3 as stated fails for persistent storage: rows are only ever inserted, so after eleven
  turns of a registered user the table holds 22 rows for that user.
\<close>

theorem stored_history_counterexample:
  "length (storedTurns registeredUser
     (runTurns (replicate 11 (scriptedWorld CallOk (answer (str ''Sure.'') []), 0,
                              post registeredUser (str ''hello'')))
        (initialState emptyDatastore)))
   = 22"
  using repeated_turns_store[where w = "scriptedWorld CallOk (answer (str ''Sure.'') [])"
      and u = registeredUser and t = "str ''hello''" and n = 11 and now = 0
      and s = "initialState emptyDatastore"]
    registeredUser_valid hello_not_blank hello_is_safe
  by (simp add: scriptedWorld_def storedTurns_def initialState_def emptyDatastore_def)

section \<open>Properties of the fallback heuristic\<close>

lemma interpretResponse_no_calls:
  assumes "\<not> blocked r" and "responseText r = Some reply" and "extractFunctionCalls r = []"
  shows "ar_actions (fst (interpretResponse w now u message history memory r s))
         = fallbackHeuristic message memory []"
  using assms by (simp add: interpretResponse_def Let_def split_beta)

lemma processWithAgent_no_calls:
  assumes "checkCookingIntent message = None" and "\<And>p. generateContent w p = Some r"
    and "\<not> blocked r" and "responseText r = Some reply" and "extractFunctionCalls r = []"
  shows "ar_actions (fst (processWithAgent w now u message history s))
         = fallbackHeuristic message (fst (getUserMemory w now u (snd (getUserPreferences w u s)))) []"
  using assms(1,2)
  by (simp add: processWithAgent_def assembleContext_def Let_def split_beta interpretResponse_no_calls[OF assms(3,4,5)])

lemma biryani_nonempty: "str ''biryani'' \<noteq> []"
  by (simp add: str_def)

lemma fallbackQuery_nonempty: "fallbackQuery message memory \<noteq> []"
  by (simp add: fallbackQuery_def Let_def biryani_nonempty)

lemma fallbackQuery_stripped:
  "strippedQuery message \<noteq> [] \<Longrightarrow> fallbackQuery message memory = strippedQuery message"
  by (simp add: fallbackQuery_def Let_def)

lemma lastMemoryContent_last:
  "lastMemoryContent memory
     = (if memory = [] then []
        else case m_content (last memory) of None \<Rightarrow> [] | Some c \<Rightarrow> c)"
proof (cases memory rule: rev_cases)
  case Nil
  then show ?thesis by (simp add: lastMemoryContent_def sliceLast_def)
next
  case (snoc ms m)
  then show ?thesis by (simp add: lastMemoryContent_def sliceLast_def)
qed

lemma fallbackQuery_memory:
  assumes "strippedQuery message = []"
  shows "fallbackQuery message memory
         = (if trim (firstSegment (if memory = [] then []
                                   else case m_content (last memory) of None \<Rightarrow> [] | Some c \<Rightarrow> c)) = []
            then str ''biryani''
            else trim (firstSegment (if memory = [] then []
                                     else case m_content (last memory) of None \<Rightarrow> [] | Some c \<Rightarrow> c)))"
  using assms by (simp add: fallbackQuery_def Let_def lastMemoryContent_last)

text \<open>
  C4, as the code has it. When the guardrail lets the message through, the model answers
  with no tool call, and the message contains one of the trigger phrases, the actions list
  is exactly one synthesized \<^verbatim>\<open>reference_images\<close> action. Its query is never empty: it is
  what the stripping of the trigger phrases and generic tails leaves of the lower-cased
  message or, when nothing is left, the first clause (up to the first newline, comma or
  full stop, trimmed) of the memory fact that is read, which is the last row of the memory
  that was loaded, and the fixed query \<^verbatim>\<open>biryani\<close> only when that clause is empty or there
  is no memory fact.
\<close>

theorem see_request_fallback_action:
  assumes "checkCookingIntent message = None" and "\<And>p. generateContent w p = Some r"
    and "\<not> blocked r" and "responseText r = Some reply" and "extractFunctionCalls r = []"
    and "askedToSee message"
    and "memory = fst (getUserMemory w now u (snd (getUserPreferences w u s)))"
  shows "ar_actions (fst (processWithAgent w now u message history s))
           = [ReferenceImages (fallbackQuery message memory) heuristicReason None]
       \<and> fallbackQuery message memory \<noteq> []
       \<and> (strippedQuery message \<noteq> [] \<longrightarrow> fallbackQuery message memory = strippedQuery message)
       \<and> (strippedQuery message = [] \<longrightarrow>
             fallbackQuery message memory
               = (if trim (firstSegment (if memory = [] then []
                             else case m_content (last memory) of None \<Rightarrow> [] | Some c \<Rightarrow> c)) = []
                  then str ''biryani''
                  else trim (firstSegment (if memory = [] then []
                             else case m_content (last memory) of None \<Rightarrow> [] | Some c \<Rightarrow> c))))"
proof -
  have acts: "ar_actions (fst (processWithAgent w now u message history s))
           = [ReferenceImages (fallbackQuery message memory) heuristicReason None]"
    using assms(6,7) processWithAgent_no_calls[OF assms(1,2,3,4,5), of now u history s]
    by (simp add: fallbackHeuristic_def)
  show ?thesis
    using acts fallbackQuery_nonempty[of message memory] fallbackQuery_stripped[of message memory]
      fallbackQuery_memory[of message memory]
    by blast
qed

text \<open>The lower case of a capital letter beyond Latin-1 reaches the query.\<close>

lemma show_me_zurek:
  "strippedQuery (str ''Show me '' @ [0x17B] @ str ''UREK'') = [0x17C] @ str ''urek''"
  by (simp add: strippedQuery_def seePhrases_def stripPhrase_def split_def removeMatch_def
      matchHowLooks_def matchDoesLook_def lit_def opt_def splitFrom.simps lowerRanges_def
      caseIgnorableRanges_def casedRanges_def js_eval)

lemma show_me_pasta:
  "checkCookingIntent (str ''Show me pasta carbonara'') = None"
  "askedToSee (str ''Show me pasta carbonara'')"
  "strippedQuery (str ''Show me pasta carbonara'') = str ''pasta carbonara''"
  by (simp_all add: checkCookingIntent_def metaphorPhrases_def nonFoodTopics_def askedToSee_def
      seePhrases_def strippedQuery_def stripPhrase_def split_def removeMatch_def
      matchHowLooks_def matchDoesLook_def lit_def opt_def splitFrom.simps js_eval)

lemma guest_has_no_memory: "fst (getUserMemory w now guestUser s) = []"
  by (simp add: getUserMemory_def guestUser_invalid)

lemma plain_answer:
  "\<not> blocked (answer t [])" "responseText (answer t []) = Some t"
  "extractFunctionCalls (answer t []) = []"
  "generateContent (scriptedWorld wr r) p = Some r"
  by (simp_all add: blocked_def answer_def extractFunctionCalls_def scriptedWorld_def)

theorem see_request_fallback_action_witness:
  "ar_actions (fst (processWithAgent (scriptedWorld CallOk (answer (str ''Here it is.'') [])) 0
       guestUser (str ''Show me pasta carbonara'') [] (initialState emptyDatastore)))
   = [ReferenceImages (str ''pasta carbonara'') heuristicReason None]"
proof -
  have ne: "str ''pasta carbonara'' \<noteq> []" by (simp add: str_def)
  show ?thesis
    using see_request_fallback_action[where w = "scriptedWorld CallOk (answer (str ''Here it is.'') [])"
      and r = "answer (str ''Here it is.'') []" and reply = "str ''Here it is.''" and now = 0
      and u = guestUser and message = "str ''Show me pasta carbonara''" and history = "[]"
      and s = "initialState emptyDatastore" and memory = "[]"]
      show_me_pasta plain_answer guest_has_no_memory ne
    by simp
qed

lemma show_me_alone:
  "checkCookingIntent (str ''Show me'') = None"
  "askedToSee (str ''Show me'')"
  "strippedQuery (str ''Show me'') = []"
  by (simp_all add: checkCookingIntent_def metaphorPhrases_def nonFoodTopics_def askedToSee_def
      seePhrases_def strippedQuery_def stripPhrase_def split_def removeMatch_def
      matchHowLooks_def matchDoesLook_def lit_def opt_def splitFrom.simps js_eval)

text \<open>
  C4 as stated fails: for a guest, who has no memory facts, the message \<^verbatim>\<open>Show me\<close> leaves
  nothing after stripping, and the query is the fixed word \<^verbatim>\<open>biryani\<close>, not a memory fact.
\<close>

theorem fallback_without_memory_counterexample:
  "strippedQuery (str ''Show me'') = []
   \<and> fst (getUserMemory (scriptedWorld CallOk (answer (str ''Here it is.'') [])) 0 guestUser
           (snd (getUserPreferences (scriptedWorld CallOk (answer (str ''Here it is.'') []))
                   guestUser (initialState emptyDatastore)))) = []
   \<and> ar_actions (fst (processWithAgent (scriptedWorld CallOk (answer (str ''Here it is.'') [])) 0
         guestUser (str ''Show me'') [] (initialState emptyDatastore)))
     = [ReferenceImages (str ''biryani'') heuristicReason None]"
  using show_me_alone
    processWithAgent_no_calls[where w = "scriptedWorld CallOk (answer (str ''Here it is.'') [])"
      and r = "answer (str ''Here it is.'') []" and reply = "str ''Here it is.''" and now = 0
      and u = guestUser and message = "str ''Show me''" and history = "[]"
      and s = "initialState emptyDatastore", OF _ plain_answer(4) plain_answer(1,2,3)]
  by (simp add: guest_has_no_memory fallbackHeuristic_def fallbackQuery_def lastMemoryContent_def
      firstSegment_def sliceLast_def trim_def)

text \<open>
  With two stored facts, the memory query lists the more recent one first, and the fallback
  reads the last row of the list: the query is the older fact.
\<close>

lemma fallback_reads_last_row:
  "map m_content (fst (getUserMemory (scriptedWorld CallOk (answer [] [])) 300 registeredUser
         (initialState twoFacts)))
     = [Some (str ''masala dosa''), Some (str ''paneer tikka'')]
   \<and> fallbackQuery (str ''Show me'')
         (fst (getUserMemory (scriptedWorld CallOk (answer [] [])) 300 registeredUser
                (initialState twoFacts)))
     = str ''paneer tikka''"
proof -
  have ne: "str ''paneer tikka'' \<noteq> str ''masala dosa''" "str ''paneer tikka'' \<noteq> []"
    by (simp_all add: str_def)
  have seg: "trim (firstSegment (str ''paneer tikka'')) = str ''paneer tikka''"
    by (simp add: firstSegment_def js_eval)
  have mem: "fst (getUserMemory (scriptedWorld CallOk (answer [] [])) 300 registeredUser
         (initialState twoFacts))
     = [\<lparr>m_user_id = registeredUser, m_type = str ''recipe'', m_content = Some (str ''masala dosa''),
         m_confidence = 3, m_created_at = 200, m_expires_at = Some 1000\<rparr>,
        \<lparr>m_user_id = registeredUser, m_type = str ''recipe'', m_content = Some (str ''paneer tikka''),
         m_confidence = 3, m_created_at = 100, m_expires_at = Some 1000\<rparr>]"
    by (simp add: getUserMemory_def registeredUser_valid scriptedWorld_def initialState_def
        twoFacts_def emptyDatastore_def unexpired_def descending_def)
  show ?thesis
    using show_me_alone(3) seg ne
    by (simp add: mem fallbackQuery_def lastMemoryContent_def sliceLast_def)
qed

section \<open>Properties of the context assembler\<close>

lemma includes_self: "includes_js p p"
  unfolding includes_js_iff by (metis append_Nil append_Nil2)

lemma includes_append1: "includes_js a p \<Longrightarrow> includes_js (a @ b) p"
  unfolding includes_js_iff by (metis append.assoc)

lemma includes_append2: "includes_js b p \<Longrightarrow> includes_js (a @ b) p"
  unfolding includes_js_iff by (metis append.assoc)

lemma includes_prefix: "includes_js (p @ b) p"
  by (rule includes_append1[OF includes_self])

lemma includes_concat: "x \<in> set xs \<Longrightarrow> includes_js x p \<Longrightarrow> includes_js (concat xs) p"
proof (induction xs)
  case Nil
  then show ?case by simp
next
  case (Cons y ys)
  then show ?case by (auto intro: includes_append1 includes_append2)
qed

lemma foldr_insort_min:
  fixes f :: "'a \<Rightarrow> int"
  assumes "\<forall>y\<in>set xs. f x < f y"
  shows "foldr (insort_key f) xs [x] = x # sort_key f xs"
  using assms by (induction xs) (simp_all add: sort_key_def)

lemma sort_key_snoc_min:
  fixes f :: "'a \<Rightarrow> int"
  assumes "\<forall>y\<in>set xs. f x < f y"
  shows "sort_key f (xs @ [x]) = x # sort_key f xs"
  using foldr_insort_min[OF assms] by (simp add: sort_key_def)

lemma db_reads:
  "db (snd (getUserPreferences w u s)) = db s"
  "db (snd (getUserMemory w now u s)) = db s"
  by (simp_all add: getUserPreferences_def getUserMemory_def split: outcome.splits)

lemma saveRecipe_appends:
  assumes "supabaseConfigured w" and "writeOutcome w SavedRecipes = CallOk"
  shows "saved_recipes (db (snd (saveRecipe w t u (Some rd) s)))
         = saved_recipes (db s) @ [recipeRowOf t u rd]"
  using assms by (simp add: saveRecipe_def)

lemma getUserRecipes_most_recent:
  assumes "supabaseConfigured w" and "isValidUUID u" and "readOutcome w SavedRecipes = CallOk"
    and "saved_recipes (db s) = older @ [recipeRowOf t u rd]"
    and "\<forall>r\<in>set older. r_user_id r = u \<longrightarrow> r_created_at r < t"
  shows "\<exists>rest. fst (getUserRecipes w u s) = recipeRowOf t u rd # rest"
proof -
  let ?new = "recipeRowOf t u rd"
  let ?mine = "filter (\<lambda>r. r_user_id r = u) older"
  have new: "r_user_id ?new = u" "r_created_at ?new = t" by (simp_all add: recipeRowOf_def)
  have "\<forall>y\<in>set ?mine. - r_created_at ?new < - r_created_at y"
    using assms(5) new by auto
  then have "sort_key (\<lambda>r. - r_created_at r) (?mine @ [?new])
             = ?new # sort_key (\<lambda>r. - r_created_at r) ?mine"
    by (rule sort_key_snoc_min)
  then show ?thesis
    using assms(1,2,3,4) new
    by (simp add: getUserRecipes_def descending_def)
qed

lemma recipeGuidanceContext_details:
  assumes "now - t < 5 * 60 * 1000"
  shows "includes_js (recipeGuidanceContext now (recipeRowOf t u rd # rest)) (recipeDetails rd)"
proof -
  have "r_created_at (recipeRowOf t u rd) = t" "r_recipe_data (recipeRowOf t u rd) = Some rd"
    by (simp_all add: recipeRowOf_def)
  then show ?thesis using assms
    by (auto simp: recipeGuidanceContext_def intro!: includes_append2 includes_self)
qed

lemma contextPrompt_recipe:
  "includes_js recipeContext p \<Longrightarrow>
   includes_js (contextPrompt preferences memory convContext recipeContext message) p"
  unfolding contextPrompt_def
  by (intro includes_append2 includes_append1)

lemma includes_trans: "includes_js s m \<Longrightarrow> includes_js m p \<Longrightarrow> includes_js s p"
proof -
  assume "includes_js s m" and "includes_js m p"
  then obtain a b c d where "s = a @ m @ b" "m = c @ p @ d"
    unfolding includes_js_iff by blast
  then have "s = (a @ c) @ p @ (d @ b)" by simp
  then show ?thesis unfolding includes_js_iff by blast
qed

lemma ingredientsBlock_line:
  assumes "i < length l" and "i < 10"
  shows "includes_js (ingredientsBlock (Some l)) (ingredientLine i (l ! i))"
proof -
  have ne: "l \<noteq> []" using assms(1) by auto
  have "(i, l ! i) \<in> set (enumerate 0 (take 10 l))"
    using assms by (simp add: in_set_enumerate_eq)
  then have "ingredientLine i (l ! i)
       \<in> set (map (\<lambda>(i, ing). ingredientLine i ing) (enumerate 0 (take 10 l)))"
    by force
  then have "includes_js (concat (map (\<lambda>(i, ing). ingredientLine i ing) (enumerate 0 (take 10 l))))
       (ingredientLine i (l ! i))"
    using includes_concat includes_self by blast
  then show ?thesis using ne
    by (auto simp: ingredientsBlock_def intro!: includes_append2)
qed

lemma stepsBlock_line:
  assumes "j < length l" and "j < 5"
  shows "includes_js (stepsBlock (Some l)) (stepLine (l ! j))"
proof -
  have ne: "l \<noteq> []" using assms(1) by auto
  have "j < length (take 5 l)" "take 5 l ! j = l ! j" using assms by simp_all
  then have "l ! j \<in> set (take 5 l)" by (metis nth_mem)
  then have "includes_js (concat (map stepLine (take 5 l))) (stepLine (l ! j))"
    using includes_concat[of "stepLine (l ! j)" "map stepLine (take 5 l)"] includes_self by simp
  then have "includes_js ([0xA, 0xA] @ str ''STEPS ('' @ show_nat (length l) @ str '' total):''
               @ (concat (map stepLine (take 5 l))
               @ (if length l > 5
                  then [0xA] @ str ''... and '' @ show_nat (length l - 5) @ str '' more steps''
                  else []))) (stepLine (l ! j))"
    by (intro includes_append2 includes_append1)
  then show ?thesis using ne by (simp add: stepsBlock_def)
qed

lemma recipeDetails_blocks:
  "includes_js (recipeDetails rd) (ingredientsBlock (ingredients rd))"
  "includes_js (recipeDetails rd) (stepsBlock (steps rd))"
  unfolding recipeDetails_def
  by (intro includes_append2 includes_prefix)+

lemma ingredientLine_obj:
  "includes_js (ingredientLine i (IngObj (Some a) (Some n) nt))
     ([0xA] @ show_nat (i + 1) @ str ''. '' @ a @ str '' '' @ n)"
proof -
  have "ingredientLine i (IngObj (Some a) (Some n) nt)
        = ([0xA] @ show_nat (i + 1) @ str ''. '' @ a @ str '' '' @ n)
          @ (case nt of None \<Rightarrow> [] | Some x \<Rightarrow> if x = [] then [] else str '' ('' @ x @ str '')'')"
    by (simp add: ingredientLine_def tmpl_def)
  then show ?thesis by (simp only: includes_prefix)
qed

lemma stepLine_obj:
  "stepLine (StepObj (Some k) (Some ins)) = [0xA] @ show_int k @ str ''. '' @ ins"
  by (simp add: stepLine_def tmplInt_def tmpl_def)

lemma assembleContext_recent_recipe:
  assumes "supabaseConfigured w" and "writeOutcome w SavedRecipes = CallOk"
    and "\<forall>r\<in>set (saved_recipes (db s)). r_user_id r = u \<longrightarrow> r_created_at r < t"
    and "saved_recipes (db s2) = saved_recipes (db (snd (saveRecipe w t u (Some rd) s)))"
    and "supabaseConfigured w2" and "isValidUUID u" and "readOutcome w2 SavedRecipes = CallOk"
    and "now - t < 5 * 60 * 1000"
  shows "includes_js (fst (assembleContext w2 now u message history s2)) (recipeDetails rd)"
proof -
  let ?s3 = "snd (getUserMemory w2 now u (snd (getUserPreferences w2 u s2)))"
  have "saved_recipes (db ?s3) = saved_recipes (db s) @ [recipeRowOf t u rd]"
    using assms(4) saveRecipe_appends[OF assms(1,2)] by (simp add: db_reads)
  then obtain rest where "fst (getUserRecipes w2 u ?s3) = recipeRowOf t u rd # rest"
    using getUserRecipes_most_recent[OF assms(5,6,7) _ assms(3)] by blast
  then show ?thesis
    using recipeGuidanceContext_details[OF assms(8), of u rd rest]
    by (simp add: assembleContext_def split_beta contextPrompt_recipe)
qed

text \<open>
  C7, as the code has it. A recipe is saved for a registered user at time \<open>t\<close>, no row of
  that user is as recent, and the table of recipes is the same when a later turn builds its
  prompt less than five minutes after \<open>t\<close>. Then the prompt contains the line of each of
  the first ten ingredients that are objects with an amount and a name, and the line of
  each of the first five steps that are objects with a number and an instruction.
\<close>

theorem saved_recipe_in_context:
  assumes "supabaseConfigured w" and "writeOutcome w SavedRecipes = CallOk"
    and "\<forall>r\<in>set (saved_recipes (db s)). r_user_id r = u \<longrightarrow> r_created_at r < t"
    and "saved_recipes (db s2) = saved_recipes (db (snd (saveRecipe w t u (Some rd) s)))"
    and "supabaseConfigured w2" and "isValidUUID u" and "readOutcome w2 SavedRecipes = CallOk"
    and "now - t < 5 * 60 * 1000"
  shows "(ingredients rd = Some ings \<and> i < length ings \<and> i < 10
            \<and> ings ! i = IngObj (Some a) (Some n) nt \<longrightarrow>
          includes_js (fst (assembleContext w2 now u message history s2))
            ([0xA] @ show_nat (i + 1) @ str ''. '' @ a @ str '' '' @ n))
       \<and> (steps rd = Some sts \<and> j < length sts \<and> j < 5
            \<and> sts ! j = StepObj (Some k) (Some ins) \<longrightarrow>
          includes_js (fst (assembleContext w2 now u message history s2))
            ([0xA] @ show_int k @ str ''. '' @ ins))"
proof (intro conjI impI)
  note ctx = assembleContext_recent_recipe[OF assms, of message history]
  {
    assume h: "ingredients rd = Some ings \<and> i < length ings \<and> i < 10
            \<and> ings ! i = IngObj (Some a) (Some n) nt"
    have "includes_js (ingredientsBlock (Some ings)) (ingredientLine i (ings ! i))"
      using h by (intro ingredientsBlock_line) simp_all
    then have "includes_js (ingredientsBlock (ingredients rd))
                 (ingredientLine i (IngObj (Some a) (Some n) nt))"
      using h by simp
    then have "includes_js (recipeDetails rd) (ingredientLine i (IngObj (Some a) (Some n) nt))"
      by (rule includes_trans[OF recipeDetails_blocks(1)])
    then have "includes_js (recipeDetails rd)
                 ([0xA] @ show_nat (i + 1) @ str ''. '' @ a @ str '' '' @ n)"
      by (rule includes_trans[OF _ ingredientLine_obj])
    then show "includes_js (fst (assembleContext w2 now u message history s2))
            ([0xA] @ show_nat (i + 1) @ str ''. '' @ a @ str '' '' @ n)"
      by (rule includes_trans[OF ctx])
  }
  {
    assume h: "steps rd = Some sts \<and> j < length sts \<and> j < 5
            \<and> sts ! j = StepObj (Some k) (Some ins)"
    have "includes_js (stepsBlock (Some sts)) (stepLine (sts ! j))"
      using h by (intro stepsBlock_line) simp_all
    then have "includes_js (stepsBlock (steps rd)) ([0xA] @ show_int k @ str ''. '' @ ins)"
      using h by (simp add: stepLine_obj)
    then have "includes_js (recipeDetails rd) ([0xA] @ show_int k @ str ''. '' @ ins)"
      by (rule includes_trans[OF recipeDetails_blocks(2)])
    then show "includes_js (fst (assembleContext w2 now u message history s2))
            ([0xA] @ show_int k @ str ''. '' @ ins)"
      by (rule includes_trans[OF ctx])
  }
qed

lemma scripted_world:
  "supabaseConfigured (scriptedWorld wr r)" "apiKeyConfigured (scriptedWorld wr r)"
  "writeOutcome (scriptedWorld wr r) t = wr" "readOutcome (scriptedWorld wr r) t = CallOk"
  by (simp_all add: scriptedWorld_def)

theorem saved_recipe_in_context_witness:
  "includes_js (fst (assembleContext (scriptedWorld CallOk (answer [] [])) 2000 registeredUser
       (str ''guide me through this recipe'') []
       (snd (saveRecipe (scriptedWorld CallOk (answer [] [])) 1000 registeredUser (Some dalRecipe)
              (initialState emptyDatastore)))))
     ([0xA] @ show_nat (1 + 1) @ str ''. '' @ str ''2 tbsp'' @ str '' '' @ str ''ghee'')
   \<and> includes_js (fst (assembleContext (scriptedWorld CallOk (answer [] [])) 2000 registeredUser
       (str ''guide me through this recipe'') []
       (snd (saveRecipe (scriptedWorld CallOk (answer [] [])) 1000 registeredUser (Some dalRecipe)
              (initialState emptyDatastore)))))
     ([0xA] @ show_int 5 @ str ''. '' @ str ''Pour over the lentils'')"
  using saved_recipe_in_context[where w = "scriptedWorld CallOk (answer [] [])"
      and ?w2.0 = "scriptedWorld CallOk (answer [] [])" and s = "initialState emptyDatastore"
      and ?s2.0 = "snd (saveRecipe (scriptedWorld CallOk (answer [] [])) 1000 registeredUser
                      (Some dalRecipe) (initialState emptyDatastore))"
      and u = registeredUser and t = 1000 and now = 2000 and rd = dalRecipe
      and message = "str ''guide me through this recipe''" and history = "[]"
      and ings = "[IngObj (Some (str ''1 cup'')) (Some (str ''red lentils'')) None,
                   IngObj (Some (str ''2 tbsp'')) (Some (str ''ghee'')) (Some (str ''or oil''))]"
      and i = 1 and a = "str ''2 tbsp''" and n = "str ''ghee''" and nt = "Some (str ''or oil'')"
      and sts = "the (steps dalRecipe)" and j = 4 and k = 5 and ins = "str ''Pour over the lentils''"]
    registeredUser_valid
  by (simp add: scripted_world initialState_def emptyDatastore_def dalRecipe_def noArgs_def)

text \<open>
  C7 as stated fails: a recipe with six steps is saved and the prompt is built one second
  later; the instruction of the sixth step is not in the prompt.
\<close>

theorem sixth_step_counterexample:
  "fst (saveRecipe (scriptedWorld CallOk (answer [] [])) 1000 registeredUser (Some dalRecipe)
         (initialState emptyDatastore))
   \<and> \<not> includes_js (fst (assembleContext (scriptedWorld CallOk (answer [] [])) 2000 registeredUser
       (str ''guide me through this recipe'') []
       (snd (saveRecipe (scriptedWorld CallOk (answer [] [])) 1000 registeredUser (Some dalRecipe)
              (initialState emptyDatastore)))))
     (str ''Garnish with coriander'')"
  using registeredUser_valid
  by (simp add: assembleContext_def getUserPreferences_def getUserMemory_def getUserRecipes_def
      saveRecipe_def scripted_world initialState_def emptyDatastore_def dalRecipe_def noArgs_def
      recipeRowOf_def descending_def contextPrompt_def conversationContext_def
      recipeGuidanceContext_def recipeDetails_def recipeTitleLine_def ingredientsBlock_def
      stepsBlock_def ingredientLine_def stepLine_def promptHead_def promptInstructions_def
      tmpl_def tmplNull_def tmplInt_def tmplIntNull_def orElse_def orElseInt_def parseTime_def
      show_int_def show_nat.simps unexpired_def emit_def split_beta Let_def js_eval)

section \<open>Persistence for guests\<close>

lemma guest_history_not_persisted:
  "\<not> isValidUUID u \<Longrightarrow> trace (addToHistory w now u m b s) = trace s"
  by (simp add: addToHistory_def Let_def)


lemma vegetarian_message:
  "trim (str ''I am vegetarian now'') \<noteq> []"
  "checkCookingIntent (str ''I am vegetarian now'') = None"
  "\<not> userExplicitlyAskedForNutrition (str ''I am vegetarian now'')"
  "\<not> isNewRecipeSuggestion (str ''Noted.'') h"
  by (simp_all add: checkCookingIntent_def metaphorPhrases_def nonFoodTopics_def
      userExplicitlyAskedForNutrition_def isNewRecipeSuggestion_def isQuestion_def
      hasCookingContent_def mentionsRecipe_def cookingKeywords_def recipeNames_def js_eval)

lemma vegetarian_is_safe: "validateInput (str ''I am vegetarian now'') = Safe"
  by code_simp

text \<open>
  C1 does not hold of the code. The guest \<^verbatim>\<open>demo-user\<close>, whose id is not a canonical
  identifier, says that they are vegetarian and the model asks for a preference update:
  the turn issues one datastore write, the upsert of \<^verbatim>\<open>saveUserPreference\<close>, and the table
  of preferences then holds a row for the guest. The history write of the same turn is
  skipped, as the claim says. \<^verbatim>\<open>saveRecipe\<close> and \<^verbatim>\<open>addToShoppingList\<close> have no check of the
  user id either.
\<close>

theorem guest_preference_write:
  "\<not> isValidUUID guestUser
   \<and> filter isDbWrite (trace (snd (handler (scriptedWorld CallOk dietUpdate) 0
          (post guestUser (str ''I am vegetarian now'')) (initialState emptyDatastore))))
     = [DbWrite UserPreferences guestUser]
   \<and> map p_user_id (user_preferences (db (snd (handler (scriptedWorld CallOk dietUpdate) 0
          (post guestUser (str ''I am vegetarian now'')) (initialState emptyDatastore)))))
     = [guestUser]"
proof -
  have names: "str ''update_preferences'' \<noteq> str ''add_to_shopping_list''"
    "str ''update_preferences'' \<noteq> str ''save_recipe''"
    "str ''STOP'' \<noteq> str ''MAX_TOKENS''" "str ''STOP'' \<noteq> str ''SAFETY''" "str ''Noted.'' \<noteq> []"
    by (simp_all add: str_def)
  show ?thesis
    using guestUser_invalid vegetarian_message vegetarian_is_safe names
    by (simp add: handler_def post_def getConversationHistory_def processWithAgent_def
        assembleContext_def getUserPreferences_def getUserMemory_def getUserRecipes_def
        interpretResponse_def blocked_def finishReasonErrors_def extractFunctionCalls_def
        executeFunctionCall_def executeUpdatePreferences_def saveUserPreference_def
        upsertPreference_def fallbackHeuristic_def nutritionStep_def addToHistory_def
        memoryHistory_def scriptedWorld_def dietUpdate_def answer_def noArgs_def
        initialState_def emptyDatastore_def isDbWrite_def orElseInt_def
        split_beta Let_def)
qed

end
